theory Spec2Isabelle
  imports Main "HOL-Library.Word" "HOL-Library.AList"
begin

section \<open>Values, errors and the device\<close>

text \<open>
  A JavaScript \<^verbatim>\<open>Error\<close> is kept by its \<^verbatim>\<open>message\<close>, the only part the wallet reads.
  Strings are byte strings; a \<^verbatim>\<open>Uint8Array\<close> is a list of 8-bit words.
\<close>

datatype error = Error (message: string)

type_synonym byte = "8 word"

datatype json =
    JNull
  | JBool bool
  | JNum int
  | JStr string
  | JArr "json list"
  | JObj "(string \<times> json) list"

text \<open>
  The mutable state the wallet works on: the entries of \<^verbatim>\<open>expo-secure-store\<close>, the
  entries of the singleton logger (newest first; an entry is kept as its type and its
  message, and the pictographs that open the messages are left out), the number of
  clock readings taken so far, the requests handed to the HTTP client, the clipboard,
  and the alerts shown to the user (title and message, oldest first).
\<close>

record world =
  items :: "string \<rightharpoonup> string"
  logs :: "(string \<times> string) list"
  ticks :: nat
  posted :: "(string \<times> (string \<times> string) list) list"
  clipboard :: string
  alerts :: "(string \<times> string) list"

text \<open>The object \<^verbatim>\<open>ethers.Wallet\<close> builds from a private key (ethers v6 keeps the
  public key under \<^verbatim>\<open>signingKey\<close>, ethers v5 on the wallet itself).\<close>

record wallet =
  w_privateKey :: string
  w_signingKey_publicKey :: "string option"
  w_publicKey :: "string option"
  w_address :: string

record response =
  r_status :: nat
  r_txHash :: string
  r_blockNumber :: int

text \<open>How an axios request fails: with a response of the server (its status and the
  \<^verbatim>\<open>error\<close> field of its body), with no response, or before it was sent.\<close>

datatype failure =
    HttpError nat "string option" string
  | NoResponse string
  | SetupError string

datatype signer = ES256KSigner (keyBytes: "byte list")

record issuer_t =
  i_did :: string
  i_signer :: signer
  i_alg :: string

record vc_t =
  vc_context :: "string list"
  vc_type :: "string list"
  vc_credentialSubject :: "(string \<times> string) list"

record vcPayload_t =
  sub :: string
  nbf :: int
  vc :: vc_t

record vp_t =
  vp_context :: "string list"
  vp_type :: "string list"
  vp_verifiableCredential :: "string list"

record vpPayload_t =
  vp :: vp_t
  nonce :: "string option"

text \<open>
  The libraries and the platform the wallet calls, none of them part of the repository:
  the secure store's and the clipboard's failures, the random source, \<^verbatim>\<open>ethers\<close>,
  \<^verbatim>\<open>Buffer\<close>, \<^verbatim>\<open>JSON\<close>, \<^verbatim>\<open>did-jwt-vc\<close>, axios, and the clock
  (\<open>clock e k\<close> is the \<open>k\<close>-th reading, in milliseconds).
\<close>

record env =
  getItemAsync_rejects :: "string \<Rightarrow> error option"
  setItemAsync_rejects :: "string \<Rightarrow> string \<Rightarrow> error option"
  setStringAsync_rejects :: "string \<Rightarrow> error option"
  getRandomBytesAsync :: "nat \<Rightarrow> error + byte list"
  Wallet :: "string \<Rightarrow> error + wallet"
  computePublicKey :: "string \<Rightarrow> bool \<Rightarrow> string"
  signMessage :: "wallet \<Rightarrow> byte list \<Rightarrow> error + string"
  verifyMessage :: "byte list \<Rightarrow> string \<Rightarrow> error + string"
  Buffer_from_hex :: "string \<Rightarrow> byte list"
  JSON_stringify :: "json \<Rightarrow> string"
  JSON_parse :: "string \<Rightarrow> error + json"
  createVerifiableCredentialJwt :: "vcPayload_t \<Rightarrow> issuer_t \<Rightarrow> error + string"
  createVerifiablePresentationJwt :: "vpPayload_t \<Rightarrow> issuer_t \<Rightarrow> error + string"
  axios_post :: "string \<Rightarrow> (string \<times> string) list \<Rightarrow> failure + response"
  clock :: "nat \<Rightarrow> int"
  toISOString :: "int \<Rightarrow> string"

subsection \<open>Asynchronous functions: a result or a thrown error, and the new state\<close>

type_synonym 'a M = "world \<Rightarrow> (error + 'a) \<times> world"

definition ret :: "'a \<Rightarrow> 'a M" where
  "ret x w = (Inr x, w)"

definition throw :: "error \<Rightarrow> 'a M" where
  "throw e w = (Inl e, w)"

definition lift :: "error + 'a \<Rightarrow> 'a M" where
  "lift r w = (r, w)"

definition bnd :: "'a M \<Rightarrow> ('a \<Rightarrow> 'b M) \<Rightarrow> 'b M" where
  "bnd m f w = (case m w of (Inl e, w') \<Rightarrow> (Inl e, w') | (Inr x, w') \<Rightarrow> f x w')"

definition try_catch :: "'a M \<Rightarrow> (error \<Rightarrow> 'a M) \<Rightarrow> 'a M" where
  "try_catch m h w = (case m w of (Inl e, w') \<Rightarrow> h e w' | (Inr x, w') \<Rightarrow> (Inr x, w'))"

text \<open>JavaScript's truthiness of a value that is a string, \<^verbatim>\<open>null\<close> or \<^verbatim>\<open>undefined\<close>.\<close>

definition truthy :: "string option \<Rightarrow> bool" where
  "truthy v = (case v of None \<Rightarrow> False | Some s \<Rightarrow> s \<noteq> [])"

text \<open>\<^verbatim>\<open>Number.prototype.toString()\<close> of a natural number.\<close>

definition digit :: "nat \<Rightarrow> char" where
  "digit n = ''0123456789'' ! (n mod 10)"

fun toString_nat :: "nat \<Rightarrow> string" where
  "toString_nat n =
     (if n < 10 then [digit n]
      else toString_nat (n div 10) @ [digit (n mod 10)])"

declare toString_nat.simps [simp del]

definition toString_int :: "int \<Rightarrow> string" where
  "toString_int i = (if i < 0 then CHR ''-'' # toString_nat (nat (- i)) else toString_nat (nat i))"

definition Date_now :: "env \<Rightarrow> int M" where
  "Date_now e w = (Inr (clock e (ticks w)), w\<lparr>ticks := Suc (ticks w)\<rparr>)"

subsection \<open>utils/logger.js\<close>

definition logger_log :: "string \<Rightarrow> string \<Rightarrow> unit M" where
  "logger_log msg type w = (Inr (), w\<lparr>logs := take 50 ((type, msg) # logs w)\<rparr>)"

definition logger_info :: "string \<Rightarrow> unit M" where
  "logger_info msg = logger_log msg ''info''"

definition logger_success :: "string \<Rightarrow> unit M" where
  "logger_success msg = logger_log msg ''success''"

definition logger_error :: "string \<Rightarrow> unit M" where
  "logger_error msg = logger_log msg ''error''"

definition logger_warning :: "string \<Rightarrow> unit M" where
  "logger_warning msg = logger_log msg ''warning''"

subsection \<open>services/secureStorage.js\<close>

definition PRIVATE_KEY :: string where "PRIVATE_KEY = ''ssi_private_key''"
definition PUBLIC_KEY :: string where "PUBLIC_KEY = ''ssi_public_key''"
definition DID :: string where "DID = ''ssi_did''"
definition ADDRESS :: string where "ADDRESS = ''ssi_address''"
definition CREDENTIALS :: string where "CREDENTIALS = ''ssi_credentials''"
definition WALLET_INITIALIZED :: string where "WALLET_INITIALIZED = ''ssi_wallet_initialized''"

definition setItemAsync :: "env \<Rightarrow> string \<Rightarrow> string \<Rightarrow> unit M" where
  "setItemAsync e key val w =
     (case setItemAsync_rejects e key val of
        Some err \<Rightarrow> (Inl err, w)
      | None \<Rightarrow> (Inr (), w\<lparr>items := (items w)(key \<mapsto> val)\<rparr>))"

definition getItemAsync :: "env \<Rightarrow> string \<Rightarrow> string option M" where
  "getItemAsync e key w =
     (case getItemAsync_rejects e key of
        Some err \<Rightarrow> (Inl err, w)
      | None \<Rightarrow> (Inr (items w key), w))"

definition saveSecure :: "env \<Rightarrow> string \<Rightarrow> string \<Rightarrow> bool M" where
  "saveSecure e key val =
     try_catch
       (bnd (setItemAsync e key val) (\<lambda>_.
        bnd (logger_success (''Saved securely: '' @ key)) (\<lambda>_.
        ret True)))
       (\<lambda>err.
        bnd (logger_error (''Failed to save '' @ key @ '': '' @ message err)) (\<lambda>_.
        throw err))"

definition getSecure :: "env \<Rightarrow> string \<Rightarrow> string option M" where
  "getSecure e key =
     try_catch
       (bnd (getItemAsync e key) (\<lambda>val.
        bnd (if truthy val then logger_info (''Retrieved: '' @ key) else ret ()) (\<lambda>_.
        ret val)))
       (\<lambda>err.
        bnd (logger_error (''Failed to retrieve '' @ key @ '': '' @ message err)) (\<lambda>_.
        ret None))"

definition saveWalletKeys :: "env \<Rightarrow> string \<Rightarrow> string \<Rightarrow> string \<Rightarrow> string \<Rightarrow> bool M" where
  "saveWalletKeys e privateKey publicKey address did =
     try_catch
       (bnd (saveSecure e PRIVATE_KEY privateKey) (\<lambda>_.
        bnd (saveSecure e PUBLIC_KEY publicKey) (\<lambda>_.
        bnd (saveSecure e ADDRESS address) (\<lambda>_.
        bnd (saveSecure e DID did) (\<lambda>_.
        bnd (saveSecure e WALLET_INITIALIZED ''true'') (\<lambda>_.
        bnd (logger_success ''Wallet keys saved securely'') (\<lambda>_.
        ret True)))))))
       (\<lambda>err.
        bnd (logger_error ''Failed to save wallet keys'') (\<lambda>_.
        throw err))"

definition getPrivateKey :: "env \<Rightarrow> string option M" where
  "getPrivateKey e = getSecure e PRIVATE_KEY"

definition getPublicKey :: "env \<Rightarrow> string option M" where
  "getPublicKey e = getSecure e PUBLIC_KEY"

definition getAddress :: "env \<Rightarrow> string option M" where
  "getAddress e = getSecure e ADDRESS"

definition getDID :: "env \<Rightarrow> string option M" where
  "getDID e = getSecure e DID"

definition saveCredentials :: "env \<Rightarrow> json list \<Rightarrow> bool M" where
  "saveCredentials e credentials =
     try_catch
       (bnd (saveSecure e CREDENTIALS (JSON_stringify e (JArr credentials))) (\<lambda>_.
        bnd (logger_success (''Saved '' @ toString_nat (length credentials) @ '' credentials'')) (\<lambda>_.
        ret True)))
       (\<lambda>err.
        bnd (logger_error ''Failed to save credentials'') (\<lambda>_.
        throw err))"

text \<open>\<^verbatim>\<open>getCredentials\<close> returns whatever \<^verbatim>\<open>JSON.parse\<close> makes of the stored text,
  and the empty array when the entry is missing or empty or when anything in its body
  throws.\<close>

definition getCredentials :: "env \<Rightarrow> json M" where
  "getCredentials e =
     try_catch
       (bnd (getSecure e CREDENTIALS) (\<lambda>credentialsJson.
        case credentialsJson of
          None \<Rightarrow> ret (JArr [])
        | Some s \<Rightarrow> if s \<noteq> [] then lift (JSON_parse e s) else ret (JArr [])))
       (\<lambda>err.
        bnd (logger_error ''Failed to get credentials'') (\<lambda>_.
        ret (JArr [])))"

subsection \<open>utils/crypto.js\<close>

text \<open>\<^verbatim>\<open>String.prototype.toLowerCase\<close> on ASCII text, which is what an address is: the
  letters \<^verbatim>\<open>A\<close> to \<^verbatim>\<open>Z\<close> move to \<^verbatim>\<open>a\<close> to \<^verbatim>\<open>z\<close>, every other character stays.\<close>

definition toLowerCase_char :: "char \<Rightarrow> char" where
  "toLowerCase_char c =
     (let n = (of_char c :: nat) in if 65 \<le> n \<and> n \<le> 90 then char_of (n + 32) else c)"

definition isUpperCase :: "char \<Rightarrow> bool" where
  "isUpperCase c = (let n = (of_char c :: nat) in 65 \<le> n \<and> n \<le> 90)"

definition toLowerCase :: "string \<Rightarrow> string" where
  "toLowerCase s = map toLowerCase_char s"

text \<open>\<^verbatim>\<open>Buffer.from(bytes).toString('hex')\<close>: two lower-case hexadecimal digits a byte.\<close>

definition hex_digit :: "nat \<Rightarrow> char" where
  "hex_digit n = ''0123456789abcdef'' ! (n mod 16)"

definition toString_hex :: "byte list \<Rightarrow> string" where
  "toString_hex bs = concat (map (\<lambda>b. [hex_digit (unat b div 16), hex_digit (unat b mod 16)]) bs)"

text \<open>\<^verbatim>\<open>ethers.toUtf8Bytes\<close>: the strings of the model are UTF-8 text already.\<close>

definition toUtf8Bytes :: "string \<Rightarrow> byte list" where
  "toUtf8Bytes s = map (\<lambda>c. of_nat (of_char c)) s"

record keyPair =
  k_privateKey :: string
  k_publicKey :: string
  k_address :: string
  k_did :: string

definition generateKeyPair :: "env \<Rightarrow> keyPair M" where
  "generateKeyPair e =
     try_catch
       (bnd (lift (getRandomBytesAsync e 32)) (\<lambda>randomBytes.
        let privateKeyHex = ''0x'' @ toString_hex randomBytes in
        bnd (lift (Wallet e privateKeyHex)) (\<lambda>wallet.
        let publicKey =
              (case (if truthy (w_signingKey_publicKey wallet) then w_signingKey_publicKey wallet
                     else if truthy (w_publicKey wallet) then w_publicKey wallet
                     else None) of
                 Some k \<Rightarrow> k
               | None \<Rightarrow> computePublicKey e privateKeyHex False)
        in ret \<lparr>k_privateKey = w_privateKey wallet,
                 k_publicKey = publicKey,
                 k_address = w_address wallet,
                 k_did = ''did:ethr:VoltusWave:'' @ toLowerCase (w_address wallet)\<rparr>)))
       (\<lambda>err. throw err)"

definition createDID :: "string \<Rightarrow> string" where
  "createDID address = ''did:ethr:VoltusWave:'' @ toLowerCase address"

text \<open>What \<^verbatim>\<open>signData\<close> and \<^verbatim>\<open>verifySignature\<close> are given: a string, or a value
  they serialise with \<^verbatim>\<open>JSON.stringify\<close>.\<close>

datatype data = DString string | DObject json

definition dataString :: "env \<Rightarrow> data \<Rightarrow> string" where
  "dataString e d = (case d of DString s \<Rightarrow> s | DObject j \<Rightarrow> JSON_stringify e j)"

definition signData :: "env \<Rightarrow> string \<Rightarrow> data \<Rightarrow> string M" where
  "signData e privateKey d =
     try_catch
       (bnd (lift (Wallet e privateKey)) (\<lambda>wallet.
        let dataBytes = toUtf8Bytes (dataString e d) in
        bnd (lift (signMessage e wallet dataBytes)) (\<lambda>signature.
        ret signature)))
       (\<lambda>err. throw err)"

definition verifySignature :: "env \<Rightarrow> data \<Rightarrow> string \<Rightarrow> string \<Rightarrow> bool M" where
  "verifySignature e d signature address =
     try_catch
       (let dataBytes = toUtf8Bytes (dataString e d) in
        bnd (lift (verifyMessage e dataBytes signature)) (\<lambda>recoveredAddress.
        ret (toLowerCase recoveredAddress = toLowerCase address)))
       (\<lambda>err. ret False)"

definition getAddressFromPrivateKey :: "env \<Rightarrow> string \<Rightarrow> string M" where
  "getAddressFromPrivateKey e privateKey =
     try_catch
       (bnd (lift (Wallet e privateKey)) (\<lambda>wallet. ret (w_address wallet)))
       (\<lambda>err. throw err)"

subsection \<open>services/secureStorage.js: adding a credential\<close>

record credential =
  c_id :: string
  c_issuer :: string
  c_subject :: string
  c_data :: "(string \<times> string) list"
  c_jwt :: string
  c_addedAt :: string

definition credential_json :: "credential \<Rightarrow> json" where
  "credential_json c =
     JObj [(''id'', JStr (c_id c)), (''issuer'', JStr (c_issuer c)),
           (''subject'', JStr (c_subject c)),
           (''data'', JObj (map (\<lambda>(k, v). (k, JStr v)) (c_data c))),
           (''jwt'', JStr (c_jwt c)), (''addedAt'', JStr (c_addedAt c))]"

text \<open>\<^verbatim>\<open>addCredential\<close> pushes a copy of the credential, with an id and a date of its own,
  onto what \<^verbatim>\<open>getCredentials\<close> returned; the push throws when that is not an array
  (\<^verbatim>\<open>null\<close> has no property to read, so it throws before the clock is read).\<close>

definition addCredential :: "env \<Rightarrow> credential \<Rightarrow> bool M" where
  "addCredential e credential =
     try_catch
       (bnd (getCredentials e) (\<lambda>existingCredentials.
        if existingCredentials = JNull
        then throw (Error ''Cannot read property push of null'')
        else
        bnd (Date_now e) (\<lambda>t1.
        bnd (Date_now e) (\<lambda>t2.
        case existingCredentials of
          JArr xs \<Rightarrow>
            bnd (saveCredentials e
                  (xs @ [credential_json
                           (credential\<lparr>c_id := toString_int t1, c_addedAt := toISOString e t2\<rparr>)])) (\<lambda>_.
            bnd (logger_success ''Credential added to wallet'') (\<lambda>_.
            ret True))
        | _ \<Rightarrow> throw (Error ''existingCredentials.push is not a function'')))))
       (\<lambda>err.
        bnd (logger_error ''Failed to add credential'') (\<lambda>_.
        throw err))"

subsection \<open>services/vcService.js\<close>

definition vcPayload :: "string \<Rightarrow> int \<Rightarrow> (string \<times> string) list \<Rightarrow> vcPayload_t" where
  "vcPayload did now credentialData =
     \<lparr>sub = did,
      nbf = now div 1000,
      vc = \<lparr>vc_context = [''https://www.w3.org/2018/credentials/v1''],
            vc_type = [''VerifiableCredential''],
            vc_credentialSubject = credentialData\<rparr>\<rparr>"

text \<open>The signing party handed to \<^verbatim>\<open>did-jwt-vc\<close>, the same object for a credential
  (\<^verbatim>\<open>issuer\<close>) and for a presentation (\<^verbatim>\<open>holder\<close>): the source asks for
  \<^verbatim>\<open>ES256K\<close> and says why, "Use ES256K (not ES256K-R) - works with stored public key".\<close>

definition issuer :: "env \<Rightarrow> string \<Rightarrow> string \<Rightarrow> issuer_t" where
  "issuer e did privateKey =
     \<lparr>i_did = did,
      i_signer = ES256KSigner (Buffer_from_hex e (drop 2 privateKey)),
      i_alg = ''ES256K''\<rparr>"

definition holder :: "env \<Rightarrow> string \<Rightarrow> string \<Rightarrow> issuer_t" where
  "holder e did privateKey =
     \<lparr>i_did = did,
      i_signer = ES256KSigner (Buffer_from_hex e (drop 2 privateKey)),
      i_alg = ''ES256K''\<rparr>"

definition issueCredentialLocally :: "env \<Rightarrow> (string \<times> string) list \<Rightarrow> credential M" where
  "issueCredentialLocally e credentialData =
     try_catch
       (bnd (getDID e) (\<lambda>did.
        bnd (getPrivateKey e) (\<lambda>privateKey.
        case (did, privateKey) of
          (Some d, Some k) \<Rightarrow>
            if d = [] \<or> k = [] then throw (Error ''No wallet found'')
            else
            bnd (logger_info ''Creating credential...'') (\<lambda>_.
            bnd (Date_now e) (\<lambda>now.
            bnd (lift (createVerifiableCredentialJwt e (vcPayload d now credentialData)
                         (issuer e d k))) (\<lambda>jwt.
            bnd (logger_success ''Credential created and signed locally'') (\<lambda>_.
            bnd (Date_now e) (\<lambda>t1.
            bnd (Date_now e) (\<lambda>t2.
            let credential =
                  \<lparr>c_id = toString_int t1, c_issuer = d, c_subject = d,
                   c_data = credentialData, c_jwt = jwt, c_addedAt = toISOString e t2\<rparr>
            in
            bnd (addCredential e credential) (\<lambda>_.
            bnd (logger_success ''Credential stored in wallet'') (\<lambda>_.
            ret credential))))))))
        | _ \<Rightarrow> throw (Error ''No wallet found''))))
       (\<lambda>err.
        bnd (logger_error (''Failed to create credential: '' @ message err)) (\<lambda>_.
        throw err))"


definition vpPayload :: "credential list \<Rightarrow> string option \<Rightarrow> vpPayload_t" where
  "vpPayload credentials challenge =
     \<lparr>vp = \<lparr>vp_context = [''https://www.w3.org/2018/credentials/v1''],
            vp_type = [''VerifiablePresentation''],
            vp_verifiableCredential = map c_jwt credentials\<rparr>,
      nonce = (if truthy challenge then challenge else None)\<rparr>"

record presentation =
  vpJwt :: string

definition createPresentationLocally ::
    "env \<Rightarrow> credential list \<Rightarrow> string option \<Rightarrow> presentation M" where
  "createPresentationLocally e credentials challenge =
     try_catch
       (bnd (getDID e) (\<lambda>did.
        bnd (getPrivateKey e) (\<lambda>privateKey.
        case (did, privateKey) of
          (Some d, Some k) \<Rightarrow>
            if d = [] \<or> k = [] then throw (Error ''No wallet found'')
            else
            bnd (logger_info ''Creating presentation...'') (\<lambda>_.
            bnd (lift (createVerifiablePresentationJwt e (vpPayload credentials challenge)
                         (holder e d k))) (\<lambda>jwt.
            bnd (logger_success ''Presentation created and signed locally'') (\<lambda>_.
            ret \<lparr>vpJwt = jwt\<rparr>)))
        | _ \<Rightarrow> throw (Error ''No wallet found''))))
       (\<lambda>err.
        bnd (logger_error (''Failed to create presentation: '' @ message err)) (\<lambda>_.
        throw err))"

subsection \<open>services/api.js: the HTTP client and its interceptors\<close>

definition failure_message :: "failure \<Rightarrow> string" where
  "failure_message f =
     (case f of HttpError _ _ m \<Rightarrow> m | NoResponse m \<Rightarrow> m | SetupError m \<Rightarrow> m)"

definition apiClient_post :: "env \<Rightarrow> string \<Rightarrow> (string \<times> string) list \<Rightarrow> response M" where
  "apiClient_post e url body =
     bnd (logger_info (''API Request: POST '' @ url)) (\<lambda>_.
     bnd (\<lambda>w. (Inr (), w\<lparr>posted := posted w @ [(url, body)]\<rparr>)) (\<lambda>_.
     case axios_post e url body of
       Inr r \<Rightarrow>
         bnd (logger_success (''Response: '' @ url @ '' - Status '' @ toString_nat (r_status r))) (\<lambda>_.
         ret r)
     | Inl f \<Rightarrow>
         bnd (case f of
                HttpError st err m \<Rightarrow>
                  logger_error (''API Error: '' @ toString_nat st @ '' - '' @
                                (case err of Some x \<Rightarrow> (if x \<noteq> [] then x else m) | None \<Rightarrow> m))
              | NoResponse m \<Rightarrow> logger_error ''Network Error: No response from server''
              | SetupError m \<Rightarrow> logger_error (''Error: '' @ m)) (\<lambda>_.
         throw (Error (failure_message f)))))"

subsection \<open>services/didManager.js\<close>

text \<open>The file holds three revisions of the manager. \<open>registerDIDOnBlockchain_public\<close>
  and \<open>createLocalDID_public\<close> are the first (the third differs from it in one log
  message only): registration sends public data. \<open>registerDIDOnBlockchain\<close> and
  \<open>createLocalDID\<close> are the second: registration signs a proof of ownership.\<close>

definition registerDIDOnBlockchain_public ::
    "env \<Rightarrow> string \<Rightarrow> string \<Rightarrow> string \<Rightarrow> response M" where
  "registerDIDOnBlockchain_public e did publicKey address =
     try_catch
       (bnd (logger_info ''Registering DID on blockchain...'') (\<lambda>_.
        bnd (apiClient_post e ''/register''
               [(''did'', did), (''publicKey'', publicKey), (''address'', address)]) (\<lambda>r.
        bnd (logger_success (''DID registered on blockchain: '' @ r_txHash r)) (\<lambda>_.
        ret r))))
       (\<lambda>err.
        bnd (logger_error (''Blockchain registration failed: '' @ message err)) (\<lambda>_.
        throw err))"

record registration =
  success :: bool
  txHash :: string
  blockNumber :: int

definition registerDIDOnBlockchain ::
    "env \<Rightarrow> string \<Rightarrow> string \<Rightarrow> string \<Rightarrow> string \<Rightarrow> registration M" where
  "registerDIDOnBlockchain e did publicKey address privateKey =
     try_catch
       (bnd (logger_info ''Registering DID on blockchain...'') (\<lambda>_.
        let msg = ''Register DID: '' @ did in
        bnd (signData e privateKey (DString msg)) (\<lambda>signature.
        bnd (logger_info ''Signed proof of ownership'') (\<lambda>_.
        bnd (logger_info ''Sending to backend...'') (\<lambda>_.
        bnd (apiClient_post e ''/register-on-chain''
               [(''did'', did), (''publicKey'', publicKey), (''address'', address),
                (''signature'', signature), (''message'', msg)]) (\<lambda>r.
        bnd (logger_success ''DID registered on blockchain!'') (\<lambda>_.
        bnd (logger_success (''TX Hash: '' @ r_txHash r)) (\<lambda>_.
        ret \<lparr>success = True, txHash = r_txHash r, blockNumber = r_blockNumber r\<rparr>))))))))
       (\<lambda>err.
        bnd (logger_error (''Blockchain registration failed: '' @ message err)) (\<lambda>_.
        throw err))"

record localDID =
  l_did :: string
  l_address :: string
  l_publicKey :: string

definition createLocalDID_public :: "env \<Rightarrow> localDID M" where
  "createLocalDID_public e =
     try_catch
       (bnd (logger_info ''Generating key pair locally...'') (\<lambda>_.
        bnd (generateKeyPair e) (\<lambda>kp.
        bnd (logger_success (''DID created locally: '' @ k_did kp)) (\<lambda>_.
        bnd (saveWalletKeys e (k_privateKey kp) (k_publicKey kp) (k_address kp) (k_did kp)) (\<lambda>_.
        bnd (try_catch
               (bnd (registerDIDOnBlockchain_public e (k_did kp) (k_publicKey kp) (k_address kp))
                  (\<lambda>_. ret ()))
               (\<lambda>err.
                logger_warning ''DID created locally but blockchain registration failed'')) (\<lambda>_.
        bnd (logger_success ''DID created successfully'') (\<lambda>_.
        ret \<lparr>l_did = k_did kp, l_address = k_address kp, l_publicKey = k_publicKey kp\<rparr>)))))))
       (\<lambda>err.
        bnd (logger_error ''Failed to create DID'') (\<lambda>_.
        throw err))"

definition createLocalDID :: "env \<Rightarrow> localDID M" where
  "createLocalDID e =
     try_catch
       (bnd (logger_info ''Generating key pair locally...'') (\<lambda>_.
        bnd (generateKeyPair e) (\<lambda>kp.
        bnd (logger_success (''DID created locally: '' @ k_did kp)) (\<lambda>_.
        bnd (saveWalletKeys e (k_privateKey kp) (k_publicKey kp) (k_address kp) (k_did kp)) (\<lambda>_.
        bnd (try_catch
               (bnd (registerDIDOnBlockchain e (k_did kp) (k_publicKey kp) (k_address kp)
                       (k_privateKey kp)) (\<lambda>_.
                logger_success ''DID registered on blockchain''))
               (\<lambda>err.
                bnd (logger_warning ''DID created locally but blockchain registration failed'') (\<lambda>_.
                logger_warning ''You can try registering again later''))) (\<lambda>_.
        bnd (logger_success ''DID created successfully'') (\<lambda>_.
        ret \<lparr>l_did = k_did kp, l_address = k_address kp, l_publicKey = k_publicKey kp\<rparr>)))))))
       (\<lambda>err.
        bnd (logger_error ''Failed to create DID'') (\<lambda>_.
        throw err))"

subsection \<open>app/issue.js and the verify screen: the handlers that call the services\<close>

text \<open>A handler works on the state of its screen and tells the user the outcome in an
  alert. The busy flag it raises and lowers around its work is left out.\<close>

definition Alert_alert :: "string \<Rightarrow> string \<Rightarrow> unit M" where
  "Alert_alert title msg w = (Inr (), w\<lparr>alerts := alerts w @ [(title, msg)]\<rparr>)"

record walletInfo_t =
  wi_did :: "string option"
  wi_address :: "string option"
  wi_publicKey :: "string option"


text \<open>\<^verbatim>\<open>!walletInfo?.did\<close>\<close>

definition no_did :: "walletInfo_t option \<Rightarrow> bool" where
  "no_did wi = (case wi of None \<Rightarrow> True | Some i \<Rightarrow> \<not> truthy (wi_did i))"








record verifyScreen =
  vs_credentials :: "credential list"
  vs_selectedCredentials :: "string list"
  vs_walletInfo :: "walletInfo_t option"
  vs_challenge :: string

text \<open>\<^verbatim>\<open>String.prototype.trim\<close> on ASCII text.\<close>

definition whitespace :: "char \<Rightarrow> bool" where
  "whitespace c = (c \<in> set [CHR '' '', CHR 0x09, CHR 0x0A, CHR 0x0B, CHR 0x0C, CHR 0x0D])"

definition trim :: "string \<Rightarrow> string" where
  "trim s = rev (dropWhile whitespace (rev (dropWhile whitespace s)))"

definition setStringAsync :: "env \<Rightarrow> string \<Rightarrow> unit M" where
  "setStringAsync e text w =
     (case setStringAsync_rejects e text of
        Some err \<Rightarrow> (Inl err, w)
      | None \<Rightarrow> (Inr (), w\<lparr>clipboard := text\<rparr>))"

definition createPresentation :: "env \<Rightarrow> verifyScreen \<Rightarrow> verifyScreen M" where
  "createPresentation e s =
     (if length (vs_selectedCredentials s) = 0
      then bnd (Alert_alert ''Error'' ''Select at least one credential'') (\<lambda>_. ret s)
      else if no_did (vs_walletInfo s)
      then bnd (Alert_alert ''Error'' ''No DID found'') (\<lambda>_. ret s)
      else
        try_catch
          (let selectedCreds =
                 filter (\<lambda>c. c_id c \<in> set (vs_selectedCredentials s)) (vs_credentials s);
               challengeToUse =
                 (if trim (vs_challenge s) \<noteq> [] then Some (trim (vs_challenge s)) else None)
           in
           bnd (createPresentationLocally e selectedCreds challengeToUse) (\<lambda>result.
           bnd (setStringAsync e (vpJwt result)) (\<lambda>_.
           bnd (Alert_alert ''Presentation Created''
                  (''VP JWT created and copied to clipboard!'' @ [CHR 0x0A, CHR 0x0A] @
                   ''Credentials: '' @ toString_nat (length selectedCreds) @
                   (case challengeToUse of
                      Some c \<Rightarrow> CHR 0x0A # ''Challenge: '' @ c
                    | None \<Rightarrow> CHR 0x0A # ''No challenge used''))) (\<lambda>_.
           bnd (logger_success ''Presentation created locally and copied'') (\<lambda>_.
           ret (s\<lparr>vs_selectedCredentials := [], vs_challenge := []\<rparr>))))))
          (\<lambda>err.
           bnd (logger_error (''Failed to create presentation: '' @ message err)) (\<lambda>_.
           bnd (Alert_alert ''Error'' (''Failed: '' @ message err)) (\<lambda>_.
           ret s))))"

subsection \<open>The compact token format\<close>

text \<open>A token is three segments joined by dots, each in the URL-safe base 64 alphabet
  without padding: header, payload and signature. \<^verbatim>\<open>did-jwt\<close> signs with the algorithm
  the signing party names in \<^verbatim>\<open>alg\<close>, the two names being the ones the comments of
  \<^verbatim>\<open>vcService.js\<close> use: under \<^verbatim>\<open>ES256K\<close> the signature is the 64 bytes of r and s
  (86 characters), which is checked against a known public key; under \<^verbatim>\<open>ES256K-R\<close>
  it is 65 bytes, r and s and the recovery byte (87 characters), from which the public
  key is reconstructed. A token is recoverable when its signature carries the recovery
  byte.\<close>

definition b64 :: "int \<Rightarrow> char" where
  "b64 n =
     ''ABCDEFGHIJKLMNOPQRSTUVWXYZabcdefghijklmnopqrstuvwxyz0123456789-_'' ! nat (n mod 64)"

fun base64url :: "byte list \<Rightarrow> string" where
  "base64url (a # b # c # rest) =
     (let x = uint a * 65536 + uint b * 256 + uint c
      in [b64 (x div 262144), b64 (x div 4096), b64 (x div 64), b64 x]) @ base64url rest"
| "base64url [a, b] =
     (let x = uint a * 1024 + uint b * 4 in [b64 (x div 4096), b64 (x div 64), b64 x])"
| "base64url [a] = (let x = uint a * 16 in [b64 (x div 64), b64 x])"
| "base64url [] = []"

fun segments :: "string \<Rightarrow> string list" where
  "segments [] = [[]]"
| "segments (c # cs) =
     (if c = CHR ''.'' then [] # segments cs
      else (case segments cs of s # ss \<Rightarrow> (c # s) # ss | [] \<Rightarrow> [[c]]))"

definition recoverable_token :: "string \<Rightarrow> bool" where
  "recoverable_token token =
     (case segments token of [header, payload, signature] \<Rightarrow> length signature = 87 | _ \<Rightarrow> False)"

section \<open>An example device\<close>

text \<open>
  Concrete libraries, to run the wallet on examples. The wallet of the private key 1 is
  the one \<^verbatim>\<open>ethers\<close> derives (its public key is the generator of secp256k1). The
  other entries are stand-ins with the interface of the library they replace: a signing
  scheme that writes the signer's address behind the message, a token library that
  refuses a credential with no subject entry and signs every other payload it is handed,
  a hexadecimal decoder, a printer and a parser that
  knows the empty array, a registrar that answers, a clock.
\<close>

definition example_key :: string where
  "example_key = ''0x0000000000000000000000000000000000000000000000000000000000000001''"

definition example_address :: string where
  "example_address = ''0x7E5F4552091A69125d5DfCb7b8C2659029395Bdf''"

definition example_did :: string where
  "example_did = ''did:ethr:VoltusWave:0x7e5f4552091a69125d5dfcb7b8c2659029395bdf''"

definition example_publicKey :: string where
  "example_publicKey =
     ''0x0479be667ef9dcbbac55a06295ce870b07029bfcdb2dce28d959f2815b16f81798'' @
     ''483ada7726a3c4655da4fbfc0e1108a8fd17b448a68554199c47d08ffb10d4b8''"

definition example_wallet :: wallet where
  "example_wallet =
     \<lparr>w_privateKey = example_key, w_signingKey_publicKey = Some example_publicKey,
      w_publicKey = None, w_address = example_address\<rparr>"

definition hex_value :: "char \<Rightarrow> nat option" where
  "hex_value c =
     (let n = (of_char c :: nat) in
      if 48 \<le> n \<and> n \<le> 57 then Some (n - 48)
      else if 97 \<le> n \<and> n \<le> 102 then Some (n - 87)
      else if 65 \<le> n \<and> n \<le> 70 then Some (n - 55)
      else None)"

fun example_from_hex :: "string \<Rightarrow> byte list" where
  "example_from_hex (a # b # rest) =
     (case (hex_value a, hex_value b) of
        (Some x, Some y) \<Rightarrow> of_nat (16 * x + y) # example_from_hex rest
      | _ \<Rightarrow> [])"
| "example_from_hex _ = []"

definition example_sign :: "wallet \<Rightarrow> byte list \<Rightarrow> error + string" where
  "example_sign wl bs = Inr (toString_hex bs @ '':'' @ w_address wl)"

definition example_recover :: "byte list \<Rightarrow> string \<Rightarrow> error + string" where
  "example_recover bs sg =
     (let h = toString_hex bs @ '':'' in
      if take (length h) sg = h then Inr (drop (length h) sg)
      else Inl (Error ''invalid signature''))"

fun example_stringify :: "json \<Rightarrow> string" where
  "example_stringify JNull = ''null''"
| "example_stringify (JBool b) = (if b then ''true'' else ''false'')"
| "example_stringify (JNum i) = toString_int i"
| "example_stringify (JStr s) = ''\"'' @ s @ ''\"''"
| "example_stringify (JArr xs) =
     ''['' @ concat (map (\<lambda>x. example_stringify x @ '','') xs) @ '']''"
| "example_stringify (JObj kvs) =
     ''{'' @ concat (map (\<lambda>(k, v). ''\"'' @ k @ ''\":'' @ example_stringify v @ '','') kvs) @ ''}''"

definition example_parse :: "string \<Rightarrow> error + json" where
  "example_parse s = (if s = ''[]'' then Inr (JArr []) else Inl (Error ''JSON Parse error''))"

definition example_env :: env where
  "example_env =
     \<lparr>getItemAsync_rejects = (\<lambda>_. None),
      setItemAsync_rejects = (\<lambda>_ _. None),
      setStringAsync_rejects = (\<lambda>_. None),
      getRandomBytesAsync = (\<lambda>n. Inr (replicate (n - 1) 0 @ [1])),
      Wallet = (\<lambda>k. if k = example_key then Inr example_wallet
                     else Inl (Error ''invalid private key'')),
      computePublicKey = (\<lambda>_ _. example_publicKey),
      signMessage = example_sign,
      verifyMessage = example_recover,
      Buffer_from_hex = example_from_hex,
      JSON_stringify = example_stringify,
      JSON_parse = example_parse,
      createVerifiableCredentialJwt =
        (\<lambda>p i. if vc_credentialSubject (vc p) = []
               then Inl (Error ''credentialSubject must not be empty'')
               else Inr (i_alg i @ ''.'' @ sub p @ ''.signature'')),
      createVerifiablePresentationJwt =
        (\<lambda>p i. Inr (i_alg i @ ''.'' @ concat (vp_verifiableCredential (vp p)) @ ''.signature'')),
      axios_post = (\<lambda>_ _. Inr \<lparr>r_status = 200, r_txHash = ''0xabc'', r_blockNumber = 7\<rparr>),
      clock = (\<lambda>k. 1700000000000 + int k),
      toISOString = toString_int\<rparr>"

text \<open>The same device with the registrar out of reach.\<close>

definition offline_env :: env where
  "offline_env = example_env\<lparr>axios_post := (\<lambda>_ _. Inl (NoResponse ''Network Error''))\<rparr>"

text \<open>The same device with a signing scheme that fails.\<close>

definition unsigned_env :: env where
  "unsigned_env = example_env\<lparr>signMessage := (\<lambda>_ _. Inl (Error ''signing failed''))\<rparr>"

definition empty_world :: world where
  "empty_world =
     \<lparr>items = Map.empty, logs = [], ticks = 0, posted = [], clipboard = [], alerts = []\<rparr>"

text \<open>A device that holds the wallet of the example key.\<close>

definition example_world :: world where
  "example_world =
     empty_world\<lparr>items := [PRIVATE_KEY \<mapsto> example_key, PUBLIC_KEY \<mapsto> example_publicKey,
                          ADDRESS \<mapsto> example_address, DID \<mapsto> example_did,
                          WALLET_INITIALIZED \<mapsto> ''true'']\<rparr>"

text \<open>A credential of that wallet, as the example libraries make it.\<close>

definition example_credential :: credential where
  "example_credential =
     \<lparr>c_id = ''1700000000001'', c_issuer = example_did, c_subject = example_did,
      c_data = [(''role'', ''admin'')],
      c_jwt = ''ES256K.did:ethr:VoltusWave:0x7e5f4552091a69125d5dfcb7b8c2659029395bdf.signature'',
      c_addedAt = ''1700000000002''\<rparr>"

definition example_walletInfo :: walletInfo_t where
  "example_walletInfo =
     \<lparr>wi_did = Some example_did, wi_address = Some example_address,
      wi_publicKey = Some example_publicKey\<rparr>"

text \<open>A second credential, a device whose token library signs every payload it is
  handed, and one whose token library puts tokens together in the compact format: the
  header names the algorithm of the signing party, and the signature is what the
  party's signer returns, here r and s of a stand-in for the curve. The signer that
  \<^verbatim>\<open>ES256KSigner(keyBytes)\<close> makes returns no recovery byte.\<close>

definition example_credential2 :: credential where
  "example_credential2 =
     \<lparr>c_id = ''1700000000009'', c_issuer = example_did, c_subject = example_did,
      c_data = [(''degree'', ''PhD'')],
      c_jwt = ''ES256K.second.signature'',
      c_addedAt = ''1700000000010''\<rparr>"

definition lenient_env :: env where
  "lenient_env =
     example_env\<lparr>createVerifiableCredentialJwt :=
                   (\<lambda>p i. Inr (i_alg i @ ''.'' @ sub p @ ''.signature''))\<rparr>"

definition example_ecdsa :: "byte list \<Rightarrow> string \<Rightarrow> byte list \<times> byte list \<times> byte" where
  "example_ecdsa key input =
     (replicate 32 (of_nat (length input)), take 32 (key @ replicate 32 0), 1)"

definition toJose :: "byte list \<times> byte list \<times> byte \<Rightarrow> bool \<Rightarrow> byte list" where
  "toJose sg recoverable =
     (case sg of (r, s, v) \<Rightarrow> r @ s @ (if recoverable then [v] else []))"

definition example_signer :: "signer \<Rightarrow> string \<Rightarrow> byte list" where
  "example_signer party_signer input =
     (case party_signer of ES256KSigner key \<Rightarrow> toJose (example_ecdsa key input) False)"

definition example_jwt :: "string \<Rightarrow> issuer_t \<Rightarrow> error + string" where
  "example_jwt payload party =
     (let header = ''{\"alg\":\"'' @ i_alg party @ ''\",\"typ\":\"JWT\"}'';
          input = base64url (toUtf8Bytes header) @ ''.'' @ base64url (toUtf8Bytes payload)
      in Inr (input @ ''.'' @ base64url (example_signer (i_signer party) input)))"

definition compact_env :: env where
  "compact_env =
     example_env\<lparr>createVerifiableCredentialJwt :=
                   (\<lambda>p i. example_jwt (''{\"sub\":\"'' @ sub p @ ''\",\"iss\":\"'' @ i_did i @ ''\"}'') i),
                 createVerifiablePresentationJwt :=
                   (\<lambda>p i. example_jwt (''{\"iss\":\"'' @ i_did i @ ''\"}'') i)\<rparr>"

text \<open>The tokens that device makes of the example wallet.\<close>

definition compact_credential_token :: string where
  "compact_credential_token =
     ''eyJhbGciOiJFUzI1NksiLCJ0eXAiOiJKV1QifQ'' @ ''.'' @
     ''eyJzdWIiOiJkaWQ6ZXRocjpWb2x0dXNXYXZlOjB4N2U1ZjQ1NTIwOTFhNjkxMjVkNWRmY2I3YjhjMjY1'' @
     ''OTAyOTM5NWJkZiIsImlzcyI6ImRpZDpldGhyOlZvbHR1c1dhdmU6MHg3ZTVmNDU1MjA5MWE2OTEyNWQ1'' @
     ''ZGZjYjdiOGMyNjU5MDI5Mzk1YmRmIn0'' @ ''.'' @
     ''5ubm5ubm5ubm5ubm5ubm5ubm5ubm5ubm5ubm5ubm5uYAAAAAAAAAAAAAAAAAAAAAAAAAAAAAAAAAAAAAAAAAAQ''"

definition compact_presentation_token :: string where
  "compact_presentation_token =
     ''eyJhbGciOiJFUzI1NksiLCJ0eXAiOiJKV1QifQ'' @ ''.'' @
     ''eyJpc3MiOiJkaWQ6ZXRocjpWb2x0dXNXYXZlOjB4N2U1ZjQ1NTIwOTFhNjkxMjVkNWRmY2I3YjhjMjY1'' @
     ''OTAyOTM5NWJkZiJ9'' @ ''.'' @
     ''h4eHh4eHh4eHh4eHh4eHh4eHh4eHh4eHh4eHh4eHh4cAAAAAAAAAAAAAAAAAAAAAAAAAAAAAAAAAAAAAAAAAAQ''"

section \<open>The secure store\<close>

lemma getSecure_eq:
  "getSecure e key w =
     (case getItemAsync_rejects e key of
        Some err \<Rightarrow>
          (Inr None,
           w\<lparr>logs := take 50 ((''error'', ''Failed to retrieve '' @ key @ '': '' @ message err)
                               # logs w)\<rparr>)
      | None \<Rightarrow>
          (Inr (items w key),
           if truthy (items w key)
           then w\<lparr>logs := take 50 ((''info'', ''Retrieved: '' @ key) # logs w)\<rparr> else w))"
  by (simp add: getSecure_def try_catch_def bnd_def getItemAsync_def ret_def logger_error_def
      logger_info_def logger_log_def split: option.splits)

lemma getCredentials_eq:
  "fst (getCredentials e w) =
     Inr (case getItemAsync_rejects e CREDENTIALS of
            Some _ \<Rightarrow> JArr []
          | None \<Rightarrow>
              (case items w CREDENTIALS of
                 None \<Rightarrow> JArr []
               | Some s \<Rightarrow> if s = [] then JArr []
                           else (case JSON_parse e s of Inl _ \<Rightarrow> JArr [] | Inr v \<Rightarrow> v)))"
  by (simp add: getCredentials_def try_catch_def bnd_def getSecure_eq ret_def lift_def
      logger_error_def logger_log_def split: option.splits sum.splits)

lemma getCredentials_items: "items (snd (getCredentials e w)) = items w"
  by (simp add: getCredentials_def try_catch_def bnd_def getSecure_eq ret_def lift_def
      logger_error_def logger_log_def split: option.splits sum.splits)

text \<open>
  C10. \<^verbatim>\<open>getCredentials\<close> never throws and leaves the store as it was. It returns the
  empty array when reading the entry fails, when the entry is missing or empty, and when
  \<^verbatim>\<open>JSON.parse\<close> rejects the stored text; otherwise it returns what \<^verbatim>\<open>JSON.parse\<close>
  made of the stored text.
\<close>

theorem getCredentials_total:
  "(\<exists>v. fst (getCredentials e w) = Inr v) \<and>
   items (snd (getCredentials e w)) = items w \<and>
   (getItemAsync_rejects e CREDENTIALS \<noteq> None \<or> items w CREDENTIALS = None \<or>
    items w CREDENTIALS = Some [] \<or>
    (\<exists>s err. items w CREDENTIALS = Some s \<and> JSON_parse e s = Inl err)
      \<longrightarrow> fst (getCredentials e w) = Inr (JArr [])) \<and>
   (\<forall>s v. getItemAsync_rejects e CREDENTIALS = None \<and> items w CREDENTIALS = Some s \<and>
          s \<noteq> [] \<and> JSON_parse e s = Inr v
      \<longrightarrow> fst (getCredentials e w) = Inr v)"
  by (auto simp: getCredentials_eq getCredentials_items split: option.splits sum.splits)

theorem getCredentials_total_witness:
  "items (empty_world\<lparr>items := [CREDENTIALS \<mapsto> ''not json'']\<rparr>) CREDENTIALS = Some ''not json'' \<and>
   JSON_parse example_env ''not json'' = Inl (Error ''JSON Parse error'') \<and>
   fst (getCredentials example_env (empty_world\<lparr>items := [CREDENTIALS \<mapsto> ''not json'']\<rparr>))
     = Inr (JArr [])"
proof -
  let ?w = "empty_world\<lparr>items := [CREDENTIALS \<mapsto> ''not json'']\<rparr>"
  have stored: "items ?w CREDENTIALS = Some ''not json''"
    by simp
  have rejected: "JSON_parse example_env ''not json'' = Inl (Error ''JSON Parse error'')"
    by (simp add: example_env_def example_parse_def)
  from stored rejected getCredentials_total [of example_env ?w]
  have "fst (getCredentials example_env ?w) = Inr (JArr [])"
    by blast
  with stored rejected show ?thesis
    by blast
qed

section \<open>Keys, identifiers and signatures\<close>

lemma toLowerCase_char_not_upper: "\<not> isUpperCase (toLowerCase_char c)"
  by (auto simp: toLowerCase_char_def isUpperCase_def Let_def)

lemma toLowerCase_char_idem: "toLowerCase_char (toLowerCase_char c) = toLowerCase_char c"
proof -
  have "\<not> isUpperCase (toLowerCase_char c)"
    by (rule toLowerCase_char_not_upper)
  then have "\<not> (65 \<le> (of_char (toLowerCase_char c) :: nat) \<and>
                (of_char (toLowerCase_char c) :: nat) \<le> 90)"
    by (simp add: isUpperCase_def Let_def)
  then show ?thesis
    unfolding toLowerCase_char_def [of "toLowerCase_char c"] Let_def by (simp only: if_False)
qed

lemma toLowerCase_idem: "toLowerCase (toLowerCase s) = toLowerCase s"
  by (simp add: toLowerCase_def toLowerCase_char_idem)

lemma generateKeyPair_did:
  "fst (generateKeyPair e w) = Inr kp \<Longrightarrow>
   k_did kp = ''did:ethr:VoltusWave:'' @ toLowerCase (k_address kp)"
  by (auto simp: generateKeyPair_def try_catch_def bnd_def lift_def ret_def throw_def Let_def
      split: sum.splits prod.splits)

text \<open>
  C2. The identifier depends on the address alone: \<^verbatim>\<open>createDID(address)\<close> is the fixed
  prefix followed by the address in lower case (no upper-case letter is left in it, and
  the case of the letters of the address does not matter), and whenever
  \<^verbatim>\<open>generateKeyPair\<close> returns a key pair, its \<^verbatim>\<open>did\<close> is \<^verbatim>\<open>createDID\<close> of its
  \<^verbatim>\<open>address\<close>, whatever the random source and \<^verbatim>\<open>ethers\<close> gave.
\<close>

theorem createDID_deterministic:
  "createDID address = ''did:ethr:VoltusWave:'' @ toLowerCase address \<and>
   (\<forall>c \<in> set (toLowerCase address). \<not> isUpperCase c) \<and>
   createDID (toLowerCase address) = createDID address \<and>
   (\<forall>kp. fst (generateKeyPair e w) = Inr kp \<longrightarrow> k_did kp = createDID (k_address kp))"
  by (auto simp: createDID_def toLowerCase_idem generateKeyPair_did)
     (auto simp: toLowerCase_def toLowerCase_char_not_upper)

theorem createDID_deterministic_witness:
  "fst (generateKeyPair example_env empty_world) =
     Inr \<lparr>k_privateKey = example_key, k_publicKey = example_publicKey,
          k_address = example_address, k_did = example_did\<rparr> \<and>
   example_did = createDID example_address"
proof -
  let ?kp = "\<lparr>k_privateKey = example_key, k_publicKey = example_publicKey,
              k_address = example_address, k_did = example_did\<rparr>"
  have generated: "fst (generateKeyPair example_env empty_world) = Inr ?kp"
    by code_simp
  with createDID_deterministic [of example_address example_env empty_world]
  have "k_did ?kp = createDID (k_address ?kp)"
    by blast
  with generated show ?thesis
    by simp
qed

text \<open>
  C7. A signature made by \<^verbatim>\<open>signData\<close> is accepted by \<^verbatim>\<open>verifySignature\<close> for the
  address of the signing key: both serialise the data the same way and hand
  \<^verbatim>\<open>ethers\<close> the same bytes, and the addresses are compared without regard to
  case. The private key is valid (\<^verbatim>\<open>ethers.Wallet\<close> accepts it), and \<^verbatim>\<open>ethers\<close>
  keeps its contract: the wallet signs the bytes, and \<^verbatim>\<open>verifyMessage\<close> recovers the
  signer's address from the bytes and that signature.
\<close>

theorem verifySignature_signData:
  assumes "Wallet e privateKey = Inr wl"
    and "signMessage e wl (toUtf8Bytes (dataString e d)) = Inr sg"
    and "verifyMessage e (toUtf8Bytes (dataString e d)) sg = Inr (w_address wl)"
  shows "signData e privateKey d w = (Inr sg, w) \<and>
         getAddressFromPrivateKey e privateKey w = (Inr (w_address wl), w) \<and>
         verifySignature e d sg (w_address wl) w = (Inr True, w)"
  using assms
  by (simp add: signData_def getAddressFromPrivateKey_def verifySignature_def try_catch_def
      bnd_def lift_def ret_def Let_def)

theorem verifySignature_signData_witness:
  "signData example_env example_key (DString ''hello'') empty_world =
     (Inr (''68656c6c6f:'' @ example_address), empty_world) \<and>
   getAddressFromPrivateKey example_env example_key empty_world =
     (Inr example_address, empty_world) \<and>
   verifySignature example_env (DString ''hello'') (''68656c6c6f:'' @ example_address)
     example_address empty_world = (Inr True, empty_world)"
proof -
  let ?d = "DString ''hello''"
  have valid: "Wallet example_env example_key = Inr example_wallet"
    by (simp add: example_env_def)
  have signs: "signMessage example_env example_wallet (toUtf8Bytes (dataString example_env ?d))
                 = Inr (''68656c6c6f:'' @ example_address)"
    by code_simp
  have recovers: "verifyMessage example_env (toUtf8Bytes (dataString example_env ?d))
                    (''68656c6c6f:'' @ example_address) = Inr (w_address example_wallet)"
    by code_simp
  have "w_address example_wallet = example_address"
    by (simp add: example_wallet_def)
  with verifySignature_signData [OF valid signs recovers, of empty_world] show ?thesis
    by simp
qed

section \<open>Running asynchronous functions\<close>

lemma fst_bnd_Inr:
  "(fst (bnd m f w) = Inr y) = (\<exists>x w'. m w = (Inr x, w') \<and> fst (f x w') = Inr y)"
  by (auto simp: bnd_def split: prod.splits sum.splits)

lemma fst_rethrow_Inr:
  "(fst (try_catch m (\<lambda>err. bnd (l err) (\<lambda>_. throw err)) w) = Inr y) = (fst (m w) = Inr y)"
  by (auto simp: try_catch_def bnd_def throw_def split: prod.splits sum.splits)

lemma fst_ret_Inr: "(fst (ret x w) = Inr y) = (x = y)"
  by (simp add: ret_def)

lemma fst_throw_Inr: "(fst (throw err w) = Inr y) = False"
  by (simp add: throw_def)

lemma logger_log_eq: "(logger_log msg ty w = (Inr x, w')) = (w' = w\<lparr>logs := take 50 ((ty, msg) # logs w)\<rparr>)"
  by (auto simp: logger_log_def)

lemma Date_now_eq: "(Date_now e w = (Inr t, w')) = (t = clock e (ticks w) \<and> w' = w\<lparr>ticks := Suc (ticks w)\<rparr>)"
  by (auto simp: Date_now_def)

lemma lift_eq: "(lift r w = (Inr x, w')) = (r = Inr x \<and> w' = w)"
  by (auto simp: lift_def)

lemma getSecure_Inr:
  "getSecure e key w = (Inr v, w') \<Longrightarrow>
   ticks w' = ticks w \<and> items w' = items w \<and>
   (truthy v \<longrightarrow> getItemAsync_rejects e key = None \<and> items w key = v)"
  by (auto simp: getSecure_eq truthy_def split: option.splits if_splits)

lemmas monad_defs = ret_def throw_def lift_def bnd_def try_catch_def

lemmas logger_defs = logger_log_def logger_info_def logger_success_def logger_error_def logger_warning_def

lemma fst_bnd:
  "fst (bnd m f w) = (case fst (m w) of Inl err \<Rightarrow> Inl err | Inr x \<Rightarrow> fst (f x (snd (m w))))"
  by (simp add: bnd_def split: prod.splits sum.splits)

lemma snd_bnd:
  "snd (bnd m f w) = (case fst (m w) of Inl err \<Rightarrow> snd (m w) | Inr x \<Rightarrow> snd (f x (snd (m w))))"
  by (simp add: bnd_def split: prod.splits sum.splits)

lemma fst_try_catch:
  "fst (try_catch m h w) = (case fst (m w) of Inl err \<Rightarrow> fst (h err (snd (m w))) | Inr x \<Rightarrow> Inr x)"
  by (simp add: try_catch_def split: prod.splits sum.splits)

lemma snd_try_catch:
  "snd (try_catch m h w) = (case fst (m w) of Inl err \<Rightarrow> snd (h err (snd (m w))) | Inr x \<Rightarrow> snd (m w))"
  by (simp add: try_catch_def split: prod.splits sum.splits)

lemma fst_snd_prims:
  "fst (ret x w) = Inr x" "snd (ret x w) = w"
  "fst (throw err w) = Inl err" "snd (throw err w) = w"
  "fst (logger_log msg ty w) = Inr ()"
  "snd (logger_log msg ty w) = w\<lparr>logs := take 50 ((ty, msg) # logs w)\<rparr>"
  by (simp_all add: ret_def throw_def logger_log_def)

lemmas run = fst_bnd snd_bnd fst_try_catch snd_try_catch fst_snd_prims
  logger_info_def logger_success_def logger_error_def logger_warning_def

lemma bnd_run: "m w = (Inr x, w') \<Longrightarrow> bnd m f w = f x w'"
  by (simp add: bnd_def)

lemma try_catch_run: "m w = (Inr x, w') \<Longrightarrow> try_catch m h w = (Inr x, w')"
  by (simp add: try_catch_def)

lemma bnd_logger:
  "bnd (logger_info msg) f w = f () (w\<lparr>logs := take 50 ((''info'', msg) # logs w)\<rparr>)"
  "bnd (logger_success msg) f w = f () (w\<lparr>logs := take 50 ((''success'', msg) # logs w)\<rparr>)"
  "bnd (logger_warning msg) f w = f () (w\<lparr>logs := take 50 ((''warning'', msg) # logs w)\<rparr>)"
  "bnd (logger_error msg) f w = f () (w\<lparr>logs := take 50 ((''error'', msg) # logs w)\<rparr>)"
  by (simp_all add: bnd_def logger_info_def logger_success_def logger_warning_def
      logger_error_def logger_log_def)

lemmas store_defs = setItemAsync_def getItemAsync_def saveSecure_def getSecure_def getDID_def
  getPrivateKey_def saveCredentials_def getCredentials_def addCredential_def Date_now_def
  PRIVATE_KEY_def PUBLIC_KEY_def DID_def ADDRESS_def CREDENTIALS_def WALLET_INITIALIZED_def

lemmas example_defs = example_env_def example_world_def empty_world_def example_did_def
  example_key_def example_address_def example_publicKey_def example_wallet_def
  example_credential_def example_parse_def example_walletInfo_def offline_env_def
  example_credential2_def lenient_env_def

lemmas compact_defs = compact_env_def example_jwt_def example_signer_def toJose_def
  example_ecdsa_def toUtf8Bytes_def b64_def hex_value_def compact_credential_token_def
  compact_presentation_token_def

lemmas eval_defs = monad_defs logger_defs store_defs example_defs toString_int_def
  toString_nat.simps digit_def truthy_def Let_def

section \<open>Credentials and presentations\<close>

lemma issueCredentialLocally_Inr:
  assumes "fst (issueCredentialLocally e cd w) = Inr c"
  shows "\<exists>d k. getItemAsync_rejects e DID = None \<and> items w DID = Some d \<and> d \<noteq> [] \<and>
               getItemAsync_rejects e PRIVATE_KEY = None \<and> items w PRIVATE_KEY = Some k \<and> k \<noteq> [] \<and>
               createVerifiableCredentialJwt e (vcPayload d (clock e (ticks w)) cd) (issuer e d k)
                 = Inr (c_jwt c) \<and>
               c_data c = cd \<and> c_issuer c = d \<and> c_subject c = d"
proof -
  from assms obtain did w1 pk w2 where
    g1: "getDID e w = (Inr did, w1)" and g2: "getPrivateKey e w1 = (Inr pk, w2)" and
    rest: "fst ((case (did, pk) of
          (Some d, Some k) \<Rightarrow>
            if d = [] \<or> k = [] then throw (Error ''No wallet found'')
            else
            bnd (logger_info ''Creating credential...'') (\<lambda>_.
            bnd (Date_now e) (\<lambda>now.
            bnd (lift (createVerifiableCredentialJwt e (vcPayload d now cd)
                         (issuer e d k))) (\<lambda>jwt.
            bnd (logger_success ''Credential created and signed locally'') (\<lambda>_.
            bnd (Date_now e) (\<lambda>t1.
            bnd (Date_now e) (\<lambda>t2.
            let credential =
                  \<lparr>c_id = toString_int t1, c_issuer = d, c_subject = d,
                   c_data = cd, c_jwt = jwt, c_addedAt = toISOString e t2\<rparr>
            in
            bnd (addCredential e credential) (\<lambda>_.
            bnd (logger_success ''Credential stored in wallet'') (\<lambda>_.
            ret credential))))))))
        | _ \<Rightarrow> throw (Error ''No wallet found'')) w2) = Inr c"
    unfolding issueCredentialLocally_def fst_rethrow_Inr fst_bnd_Inr by blast
  from g1 have f1: "ticks w1 = ticks w" "items w1 = items w"
      "truthy did \<longrightarrow> getItemAsync_rejects e DID = None \<and> items w DID = did"
    using getSecure_Inr [of e DID w did w1] by (simp_all add: getDID_def)
  from g2 have f2: "ticks w2 = ticks w1" "items w2 = items w1"
      "truthy pk \<longrightarrow> getItemAsync_rejects e PRIVATE_KEY = None \<and> items w1 PRIVATE_KEY = pk"
    using getSecure_Inr [of e PRIVATE_KEY w1 pk w2] by (simp_all add: getPrivateKey_def)
  from rest obtain d k where dk: "did = Some d" "pk = Some k" "d \<noteq> []" "k \<noteq> []"
    by (auto simp: fst_throw_Inr split: option.splits if_splits)
  with rest have
    "createVerifiableCredentialJwt e (vcPayload d (clock e (ticks w2)) cd) (issuer e d k)
       = Inr (c_jwt c) \<and> c_data c = cd \<and> c_issuer c = d \<and> c_subject c = d"
    by (auto simp: fst_bnd_Inr fst_ret_Inr logger_info_def logger_success_def logger_log_eq
        Date_now_eq lift_eq Let_def)
  with dk f1 f2 show ?thesis
    by (auto simp: truthy_def)
qed

lemma createPresentationLocally_fst:
  assumes "getItemAsync_rejects e DID = None" and "items w DID = Some d" and "d \<noteq> []"
    and "getItemAsync_rejects e PRIVATE_KEY = None" and "items w PRIVATE_KEY = Some k" and "k \<noteq> []"
  shows "fst (createPresentationLocally e credentials challenge w) =
           (case createVerifiablePresentationJwt e (vpPayload credentials challenge) (holder e d k) of
              Inl err \<Rightarrow> Inl err
            | Inr jwt \<Rightarrow> Inr \<lparr>vpJwt = jwt\<rparr>)"
  using assms
  by (simp add: createPresentationLocally_def run getDID_def getPrivateKey_def getSecure_eq
      truthy_def lift_def split: sum.splits)

lemma createPresentationLocally_Inr:
  assumes "fst (createPresentationLocally e credentials challenge w) = Inr pr"
  shows "\<exists>d k. getItemAsync_rejects e DID = None \<and> items w DID = Some d \<and> d \<noteq> [] \<and>
               getItemAsync_rejects e PRIVATE_KEY = None \<and> items w PRIVATE_KEY = Some k \<and> k \<noteq> [] \<and>
               createVerifiablePresentationJwt e (vpPayload credentials challenge) (holder e d k)
                 = Inr (vpJwt pr)"
proof -
  from assms obtain did w1 pk w2 where
    g1: "getDID e w = (Inr did, w1)" and g2: "getPrivateKey e w1 = (Inr pk, w2)" and
    rest: "fst ((case (did, pk) of
          (Some d, Some k) \<Rightarrow>
            if d = [] \<or> k = [] then throw (Error ''No wallet found'')
            else
            bnd (logger_info ''Creating presentation...'') (\<lambda>_.
            bnd (lift (createVerifiablePresentationJwt e (vpPayload credentials challenge)
                         (holder e d k))) (\<lambda>jwt.
            bnd (logger_success ''Presentation created and signed locally'') (\<lambda>_.
            ret \<lparr>vpJwt = jwt\<rparr>)))
        | _ \<Rightarrow> throw (Error ''No wallet found'')) w2) = Inr pr"
    unfolding createPresentationLocally_def fst_rethrow_Inr fst_bnd_Inr by blast
  from g1 have f1: "items w1 = items w"
      "truthy did \<longrightarrow> getItemAsync_rejects e DID = None \<and> items w DID = did"
    using getSecure_Inr [of e DID w did w1] by (simp_all add: getDID_def)
  from g2 have f2: "items w2 = items w1"
      "truthy pk \<longrightarrow> getItemAsync_rejects e PRIVATE_KEY = None \<and> items w1 PRIVATE_KEY = pk"
    using getSecure_Inr [of e PRIVATE_KEY w1 pk w2] by (simp_all add: getPrivateKey_def)
  from rest obtain d k where dk: "did = Some d" "pk = Some k" "d \<noteq> []" "k \<noteq> []"
    by (auto simp: fst_throw_Inr split: option.splits if_splits)
  with rest have
    "createVerifiablePresentationJwt e (vpPayload credentials challenge) (holder e d k)
       = Inr (vpJwt pr)"
    by (auto simp: fst_bnd_Inr fst_ret_Inr logger_info_def logger_success_def logger_log_eq
        lift_eq)
  with dk f1 f2 show ?thesis
    by (auto simp: truthy_def)
qed

lemma example_issue:
  "fst (issueCredentialLocally example_env [(''role'', ''admin'')] example_world)
     = Inr example_credential"
  by (simp add: issueCredentialLocally_def eval_defs vcPayload_def issuer_def)

lemma example_present:
  "fst (createPresentationLocally example_env [example_credential] (Some ''c1'') example_world)
     = Inr \<lparr>vpJwt = ''ES256K.'' @ c_jwt example_credential @ ''.signature''\<rparr>"
  by (simp add: createPresentationLocally_def eval_defs vpPayload_def holder_def)

lemma example_present_two:
  "fst (createPresentationLocally example_env [example_credential2, example_credential]
          (Some ''c1'') example_world)
     = Inr \<lparr>vpJwt = ''ES256K.ES256K.second.signature'' @ c_jwt example_credential @
                     ''.signature''\<rparr>"
  by (simp add: createPresentationLocally_def eval_defs vpPayload_def holder_def)

lemma example_present_empty_challenge:
  "fst (createPresentationLocally example_env [example_credential] (Some []) example_world)
     = Inr \<lparr>vpJwt = ''ES256K.'' @ c_jwt example_credential @ ''.signature''\<rparr>"
  by (simp add: createPresentationLocally_def eval_defs vpPayload_def holder_def)

lemma example_present_nothing:
  "fst (createPresentationLocally example_env [] None example_world)
     = Inr \<lparr>vpJwt = ''ES256K..signature''\<rparr>"
  by (simp add: createPresentationLocally_def eval_defs vpPayload_def holder_def)

lemma example_stale_selection:
  "clipboard (snd (createPresentation example_env
     \<lparr>vs_credentials = [], vs_selectedCredentials = [''1700000000001''],
      vs_walletInfo = Some example_walletInfo, vs_challenge = []\<rparr> example_world))
     = ''ES256K..signature''"
  by (simp add: createPresentation_def createPresentationLocally_def eval_defs vpPayload_def
      holder_def no_did_def trim_def setStringAsync_def Alert_alert_def)

lemma example_stored:
  "getItemAsync_rejects example_env DID = None"
  "items example_world DID = Some example_did"
  "getItemAsync_rejects example_env PRIVATE_KEY = None"
  "items example_world PRIVATE_KEY = Some example_key"
  "example_did \<noteq> []" "example_key \<noteq> []"
  by (simp_all add: example_defs store_defs)

lemma replicate_numeral_Cons: "replicate (numeral n) x = x # replicate (pred_numeral n) x"
  by (simp add: numeral_eq_Suc)

lemma compact_issue:
  "fst (issueCredentialLocally compact_env [(''role'', ''admin'')] example_world)
     = Inr (example_credential\<lparr>c_jwt := compact_credential_token\<rparr>)"
  by (simp add: issueCredentialLocally_def eval_defs vcPayload_def issuer_def compact_defs
      replicate_numeral_Cons)

lemma compact_present:
  "fst (createPresentationLocally compact_env [example_credential] None example_world)
     = Inr \<lparr>vpJwt = compact_presentation_token\<rparr>"
  by (simp add: createPresentationLocally_def eval_defs vpPayload_def holder_def compact_defs
      replicate_numeral_Cons)

lemma compact_segments:
  "map length (segments compact_credential_token) = [38, 191, 86]"
  "map length (segments compact_presentation_token) = [38, 96, 86]"
  by (simp_all add: compact_credential_token_def compact_presentation_token_def)

lemma compact_not_recoverable:
  "\<not> recoverable_token compact_credential_token"
  "\<not> recoverable_token compact_presentation_token"
  by (simp_all add: recoverable_token_def compact_credential_token_def
      compact_presentation_token_def)

text \<open>
  C1, as the code has it. Every credential token and every presentation token is the one
  \<^verbatim>\<open>did-jwt-vc\<close> returns for the signing party \<^verbatim>\<open>{ did, signer, alg }\<close> in which
  \<^verbatim>\<open>did\<close> is the stored DID, \<^verbatim>\<open>signer\<close> is \<^verbatim>\<open>ES256KSigner(keyBytes)\<close> on the
  bytes of the stored private key, and \<^verbatim>\<open>alg\<close> is \<^verbatim>\<open>ES256K\<close>: the algorithm asked
  for is the plain one, not the recoverable \<^verbatim>\<open>ES256K-R\<close>.
\<close>

theorem tokens_signed_with_ES256K:
  "(\<forall>c. fst (issueCredentialLocally e credentialData w) = Inr c \<longrightarrow>
      (\<exists>d k. items w DID = Some d \<and> items w PRIVATE_KEY = Some k \<and>
             createVerifiableCredentialJwt e (vcPayload d (clock e (ticks w)) credentialData)
               \<lparr>i_did = d, i_signer = ES256KSigner (Buffer_from_hex e (drop 2 k)),
                i_alg = ''ES256K''\<rparr> = Inr (c_jwt c))) \<and>
   (\<forall>pr. fst (createPresentationLocally e credentials challenge w) = Inr pr \<longrightarrow>
      (\<exists>d k. items w DID = Some d \<and> items w PRIVATE_KEY = Some k \<and>
             createVerifiablePresentationJwt e (vpPayload credentials challenge)
               \<lparr>i_did = d, i_signer = ES256KSigner (Buffer_from_hex e (drop 2 k)),
                i_alg = ''ES256K''\<rparr> = Inr (vpJwt pr)))"
proof (intro conjI allI impI)
  fix c assume "fst (issueCredentialLocally e credentialData w) = Inr c"
  from issueCredentialLocally_Inr [OF this]
  show "\<exists>d k. items w DID = Some d \<and> items w PRIVATE_KEY = Some k \<and>
             createVerifiableCredentialJwt e (vcPayload d (clock e (ticks w)) credentialData)
               \<lparr>i_did = d, i_signer = ES256KSigner (Buffer_from_hex e (drop 2 k)),
                i_alg = ''ES256K''\<rparr> = Inr (c_jwt c)"
    by (auto simp: issuer_def)
next
  fix pr assume "fst (createPresentationLocally e credentials challenge w) = Inr pr"
  from createPresentationLocally_Inr [OF this]
  show "\<exists>d k. items w DID = Some d \<and> items w PRIVATE_KEY = Some k \<and>
             createVerifiablePresentationJwt e (vpPayload credentials challenge)
               \<lparr>i_did = d, i_signer = ES256KSigner (Buffer_from_hex e (drop 2 k)),
                i_alg = ''ES256K''\<rparr> = Inr (vpJwt pr)"
    by (auto simp: holder_def)
qed

theorem tokens_signed_with_ES256K_witness:
  "fst (issueCredentialLocally example_env [(''role'', ''admin'')] example_world)
     = Inr example_credential \<and>
   (\<exists>d k. items example_world DID = Some d \<and> items example_world PRIVATE_KEY = Some k \<and>
          createVerifiableCredentialJwt example_env
            (vcPayload d (clock example_env (ticks example_world)) [(''role'', ''admin'')])
            \<lparr>i_did = d, i_signer = ES256KSigner (Buffer_from_hex example_env (drop 2 k)),
             i_alg = ''ES256K''\<rparr> = Inr (c_jwt example_credential)) \<and>
   fst (createPresentationLocally example_env [example_credential] (Some ''c1'') example_world)
     = Inr \<lparr>vpJwt = ''ES256K.'' @ c_jwt example_credential @ ''.signature''\<rparr> \<and>
   (\<exists>d k. items example_world DID = Some d \<and> items example_world PRIVATE_KEY = Some k \<and>
          createVerifiablePresentationJwt example_env
            (vpPayload [example_credential] (Some ''c1''))
            \<lparr>i_did = d, i_signer = ES256KSigner (Buffer_from_hex example_env (drop 2 k)),
             i_alg = ''ES256K''\<rparr>
            = Inr (''ES256K.'' @ c_jwt example_credential @ ''.signature''))"
proof -
  note t = tokens_signed_with_ES256K [where e = example_env and w = example_world
      and credentialData = "[(''role'', ''admin'')]" and credentials = "[example_credential]"
      and challenge = "Some ''c1''"]
  from t example_issue have
    "\<exists>d k. items example_world DID = Some d \<and> items example_world PRIVATE_KEY = Some k \<and>
          createVerifiableCredentialJwt example_env
            (vcPayload d (clock example_env (ticks example_world)) [(''role'', ''admin'')])
            \<lparr>i_did = d, i_signer = ES256KSigner (Buffer_from_hex example_env (drop 2 k)),
             i_alg = ''ES256K''\<rparr> = Inr (c_jwt example_credential)"
    by blast
  moreover from t example_present have
    "\<exists>d k. items example_world DID = Some d \<and> items example_world PRIVATE_KEY = Some k \<and>
          createVerifiablePresentationJwt example_env
            (vpPayload [example_credential] (Some ''c1''))
            \<lparr>i_did = d, i_signer = ES256KSigner (Buffer_from_hex example_env (drop 2 k)),
             i_alg = ''ES256K''\<rparr>
            = Inr (vpJwt \<lparr>vpJwt = ''ES256K.'' @ c_jwt example_credential @ ''.signature''\<rparr>)"
    by blast
  ultimately show ?thesis
    using example_issue example_present by simp
qed

theorem tokens_recoverable_counterexample:
  "fst (issueCredentialLocally compact_env [(''role'', ''admin'')] example_world)
     = Inr (example_credential\<lparr>c_jwt := compact_credential_token\<rparr>) \<and>
   map length (segments compact_credential_token) = [38, 191, 86] \<and>
   \<not> recoverable_token compact_credential_token \<and>
   fst (createPresentationLocally compact_env [example_credential] None example_world)
     = Inr \<lparr>vpJwt = compact_presentation_token\<rparr> \<and>
   map length (segments compact_presentation_token) = [38, 96, 86] \<and>
   \<not> recoverable_token compact_presentation_token"
  using compact_issue compact_present compact_segments compact_not_recoverable
  by simp

text \<open>
  C4. A credential returned by \<^verbatim>\<open>issueCredentialLocally\<close> carries the token that
  \<^verbatim>\<open>did-jwt-vc\<close> made of this payload: \<^verbatim>\<open>sub\<close> is the stored DID (the subject of
  the credential), \<^verbatim>\<open>nbf\<close> is the clock reading taken at issuance, in whole seconds,
  \<^verbatim>\<open>vc.@context\<close> holds the credentials/v1 context, \<^verbatim>\<open>vc.type\<close> holds
  \<^verbatim>\<open>VerifiableCredential\<close>, and \<^verbatim>\<open>vc.credentialSubject\<close> is the claims map as given.
\<close>

theorem issueCredentialLocally_payload:
  assumes "fst (issueCredentialLocally e claims w) = Inr c"
  shows "\<exists>d k. items w DID = Some d \<and> items w PRIVATE_KEY = Some k \<and>
           (let p = vcPayload d (clock e (ticks w)) claims in
              createVerifiableCredentialJwt e p (issuer e d k) = Inr (c_jwt c) \<and>
              sub p = d \<and> c_subject c = d \<and>
              nbf p = clock e (ticks w) div 1000 \<and>
              ''https://www.w3.org/2018/credentials/v1'' \<in> set (vc_context (vc p)) \<and>
              ''VerifiableCredential'' \<in> set (vc_type (vc p)) \<and>
              vc_credentialSubject (vc p) = claims \<and> c_data c = claims)"
  using issueCredentialLocally_Inr [OF assms]
  by (auto simp: Let_def vcPayload_def)

theorem issueCredentialLocally_payload_witness:
  "fst (issueCredentialLocally example_env [(''role'', ''admin'')] example_world)
     = Inr example_credential \<and>
   (\<exists>d k. items example_world DID = Some d \<and> items example_world PRIVATE_KEY = Some k \<and>
      (let p = vcPayload d (clock example_env (ticks example_world)) [(''role'', ''admin'')] in
         createVerifiableCredentialJwt example_env p (issuer example_env d k)
           = Inr (c_jwt example_credential) \<and>
         sub p = d \<and> c_subject example_credential = d \<and>
         nbf p = clock example_env (ticks example_world) div 1000 \<and>
         ''https://www.w3.org/2018/credentials/v1'' \<in> set (vc_context (vc p)) \<and>
         ''VerifiableCredential'' \<in> set (vc_type (vc p)) \<and>
         vc_credentialSubject (vc p) = [(''role'', ''admin'')] \<and>
         c_data example_credential = [(''role'', ''admin'')]))"
  using example_issue issueCredentialLocally_payload [OF example_issue]
  by blast

text \<open>
  C5, as the code has it. For a sequence of credentials that is not empty, a presentation
  returned by \<^verbatim>\<open>createPresentationLocally\<close> carries the token that \<^verbatim>\<open>did-jwt-vc\<close>
  made of this payload: \<^verbatim>\<open>vp.verifiableCredential\<close> lists the tokens of the given
  credentials in the given order, and \<^verbatim>\<open>nonce\<close> is the challenge when a challenge that
  is not the empty string was given, and is absent otherwise.
\<close>

theorem createPresentationLocally_payload:
  assumes "credentials \<noteq> []"
    and "fst (createPresentationLocally e credentials challenge w) = Inr pr"
  shows "\<exists>d k. items w DID = Some d \<and> items w PRIVATE_KEY = Some k \<and>
           (let p = vpPayload credentials challenge in
              createVerifiablePresentationJwt e p (holder e d k) = Inr (vpJwt pr) \<and>
              vp_verifiableCredential (vp p) = map c_jwt credentials \<and>
              nonce p = (if challenge = Some [] then None else challenge))"
  using createPresentationLocally_Inr [OF assms(2)]
  by (auto simp: Let_def vpPayload_def truthy_def split: option.splits)

theorem createPresentationLocally_payload_witness:
  "[example_credential2, example_credential] \<noteq> [] \<and>
   fst (createPresentationLocally example_env [example_credential2, example_credential]
          (Some ''c1'') example_world)
     = Inr \<lparr>vpJwt = ''ES256K.ES256K.second.signature'' @ c_jwt example_credential @
                     ''.signature''\<rparr> \<and>
   (\<exists>d k. items example_world DID = Some d \<and> items example_world PRIVATE_KEY = Some k \<and>
      (let p = vpPayload [example_credential2, example_credential] (Some ''c1'') in
         createVerifiablePresentationJwt example_env p (holder example_env d k)
           = Inr (''ES256K.ES256K.second.signature'' @ c_jwt example_credential @ ''.signature'') \<and>
         vp_verifiableCredential (vp p) = [''ES256K.second.signature'', c_jwt example_credential] \<and>
         nonce p = Some ''c1''))"
proof -
  have some: "[example_credential2, example_credential] \<noteq> []"
    by simp
  from example_present_two createPresentationLocally_payload [OF some example_present_two]
  show ?thesis
    by (simp add: example_credential2_def)
qed

theorem nonce_iff_challenge_counterexample:
  "fst (createPresentationLocally example_env [example_credential] (Some []) example_world)
     = Inr \<lparr>vpJwt = ''ES256K.'' @ c_jwt example_credential @ ''.signature''\<rparr> \<and>
   nonce (vpPayload [example_credential] (Some [])) = None"
  using example_present_empty_challenge
  by (simp add: vpPayload_def truthy_def)
















text \<open>
  C6, as the code has it. The check for an empty selection is made by the verify screen:
  with no credential selected, \<^verbatim>\<open>createPresentation\<close> shows the error
  "Select at least one credential" and does nothing else. \<^verbatim>\<open>createPresentationLocally\<close>
  has no such check of its own: given no credential and a stored wallet, it hands
  \<^verbatim>\<open>did-jwt-vc\<close> a payload whose \<^verbatim>\<open>vp.verifiableCredential\<close> is the empty array,
  and returns the token, or throws the error, that \<^verbatim>\<open>did-jwt-vc\<close> answers with.
\<close>

theorem createPresentation_empty_selection:
  "(vs_selectedCredentials s = [] \<longrightarrow>
      createPresentation e s w =
        (Inr s, w\<lparr>alerts := alerts w @ [(''Error'', ''Select at least one credential'')]\<rparr>)) \<and>
   (getItemAsync_rejects e DID = None \<and> items w DID = Some d \<and> d \<noteq> [] \<and>
    getItemAsync_rejects e PRIVATE_KEY = None \<and> items w PRIVATE_KEY = Some k \<and> k \<noteq> [] \<longrightarrow>
      vp_verifiableCredential (vp (vpPayload [] challenge)) = [] \<and>
      fst (createPresentationLocally e [] challenge w) =
        (case createVerifiablePresentationJwt e (vpPayload [] challenge) (holder e d k) of
           Inl err \<Rightarrow> Inl err
         | Inr jwt \<Rightarrow> Inr \<lparr>vpJwt = jwt\<rparr>))"
proof (intro conjI impI)
  assume "vs_selectedCredentials s = []"
  then have "createPresentation e s =
      bnd (Alert_alert ''Error'' ''Select at least one credential'') (\<lambda>_. ret s)"
    unfolding createPresentation_def by simp
  then show "createPresentation e s w =
        (Inr s, w\<lparr>alerts := alerts w @ [(''Error'', ''Select at least one credential'')]\<rparr>)"
    by (simp add: Alert_alert_def bnd_def ret_def)
next
  show "vp_verifiableCredential (vp (vpPayload [] challenge)) = []"
    by (simp add: vpPayload_def)
next
  assume "getItemAsync_rejects e DID = None \<and> items w DID = Some d \<and> d \<noteq> [] \<and>
    getItemAsync_rejects e PRIVATE_KEY = None \<and> items w PRIVATE_KEY = Some k \<and> k \<noteq> []"
  then show "fst (createPresentationLocally e [] challenge w) =
        (case createVerifiablePresentationJwt e (vpPayload [] challenge) (holder e d k) of
           Inl err \<Rightarrow> Inl err
         | Inr jwt \<Rightarrow> Inr \<lparr>vpJwt = jwt\<rparr>)"
    by (intro createPresentationLocally_fst) simp_all
qed

theorem createPresentation_empty_selection_witness:
  "createPresentation example_env
     \<lparr>vs_credentials = [example_credential], vs_selectedCredentials = [],
      vs_walletInfo = Some example_walletInfo, vs_challenge = []\<rparr> example_world =
     (Inr \<lparr>vs_credentials = [example_credential], vs_selectedCredentials = [],
           vs_walletInfo = Some example_walletInfo, vs_challenge = []\<rparr>,
      example_world\<lparr>alerts := alerts example_world @
        [(''Error'', ''Select at least one credential'')]\<rparr>) \<and>
   fst (createPresentationLocally example_env [] None example_world) =
     (case createVerifiablePresentationJwt example_env (vpPayload [] None)
             (holder example_env example_did example_key) of
        Inl err \<Rightarrow> Inl err
      | Inr jwt \<Rightarrow> Inr \<lparr>vpJwt = jwt\<rparr>)"
proof -
  let ?s = "\<lparr>vs_credentials = [example_credential], vs_selectedCredentials = [],
             vs_walletInfo = Some example_walletInfo, vs_challenge = []\<rparr>"
  have none: "vs_selectedCredentials ?s = []"
    by simp
  from none example_stored
    createPresentation_empty_selection [of ?s example_env example_world example_did
      example_key None]
  show ?thesis
    by simp
qed

theorem empty_credential_set_counterexample:
  "fst (createPresentationLocally example_env [] None example_world)
     = Inr \<lparr>vpJwt = ''ES256K..signature''\<rparr> \<and>
   clipboard (snd (createPresentation example_env
     \<lparr>vs_credentials = [], vs_selectedCredentials = [''1700000000001''],
      vs_walletInfo = Some example_walletInfo, vs_challenge = []\<rparr> example_world))
     = ''ES256K..signature''"
  using example_present_nothing example_stale_selection
  by simp

section \<open>Registration\<close>

lemma signData_eq:
  "signData e privateKey d w =
     ((case Wallet e privateKey of
         Inl err \<Rightarrow> Inl err
       | Inr wl \<Rightarrow> signMessage e wl (toUtf8Bytes (dataString e d))), w)"
  by (simp add: signData_def monad_defs Let_def split: sum.splits)

lemma generateKeyPair_world: "generateKeyPair e w = (fst (generateKeyPair e w'), w)"
  by (simp add: generateKeyPair_def monad_defs Let_def split: sum.splits)

lemma saveSecure_eq:
  "saveSecure e key val w =
     (case setItemAsync_rejects e key val of
        Some err \<Rightarrow>
          (Inl err, w\<lparr>logs := take 50 ((''error'', ''Failed to save '' @ key @ '': '' @ message err) # logs w)\<rparr>)
      | None \<Rightarrow>
          (Inr True, w\<lparr>items := (items w)(key \<mapsto> val),
                        logs := take 50 ((''success'', ''Saved securely: '' @ key) # logs w)\<rparr>))"
  by (simp add: saveSecure_def setItemAsync_def monad_defs logger_defs split: option.splits)

lemma saveWalletKeys_accepted:
  assumes "setItemAsync_rejects e PRIVATE_KEY privateKey = None"
    and "setItemAsync_rejects e PUBLIC_KEY publicKey = None"
    and "setItemAsync_rejects e ADDRESS address = None"
    and "setItemAsync_rejects e DID did = None"
    and "setItemAsync_rejects e WALLET_INITIALIZED ''true'' = None"
  shows "fst (saveWalletKeys e privateKey publicKey address did w) = Inr True"
    and "items (snd (saveWalletKeys e privateKey publicKey address did w)) =
           (items w)(PRIVATE_KEY \<mapsto> privateKey, PUBLIC_KEY \<mapsto> publicKey, ADDRESS \<mapsto> address,
                     DID \<mapsto> did, WALLET_INITIALIZED \<mapsto> ''true'')"
  using assms
  by (simp_all add: saveWalletKeys_def saveSecure_eq monad_defs logger_defs)

lemma apiClient_post_items: "items (snd (apiClient_post e url body w)) = items w"
  by (simp add: apiClient_post_def monad_defs logger_defs split: sum.splits failure.splits)

lemma apiClient_post_fst:
  "fst (apiClient_post e url body w) =
     (case axios_post e url body of Inl f \<Rightarrow> Inl (Error (failure_message f)) | Inr r \<Rightarrow> Inr r)"
  by (simp add: apiClient_post_def monad_defs logger_defs split: sum.splits failure.splits)

lemma apiClient_post_posted:
  "posted (snd (apiClient_post e url body w)) = posted w @ [(url, body)]"
  by (simp add: apiClient_post_def monad_defs logger_defs split: sum.splits failure.splits)

lemma signData_fst_snd:
  "fst (signData e privateKey d w) =
     (case Wallet e privateKey of
         Inl err \<Rightarrow> Inl err
       | Inr wl \<Rightarrow> signMessage e wl (toUtf8Bytes (dataString e d)))"
  "snd (signData e privateKey d w) = w"
  by (simp_all add: signData_eq)

lemma registerDIDOnBlockchain_fst:
  "fst (registerDIDOnBlockchain e did publicKey address privateKey w) =
     (case fst (signData e privateKey (DString (''Register DID: '' @ did)) w) of
        Inl err \<Rightarrow> Inl err
      | Inr sg \<Rightarrow>
          (case axios_post e ''/register-on-chain''
                  [(''did'', did), (''publicKey'', publicKey), (''address'', address),
                   (''signature'', sg), (''message'', ''Register DID: '' @ did)] of
             Inl f \<Rightarrow> Inl (Error (failure_message f))
           | Inr r \<Rightarrow> Inr \<lparr>success = True, txHash = r_txHash r, blockNumber = r_blockNumber r\<rparr>))"
  by (simp add: registerDIDOnBlockchain_def run signData_fst_snd apiClient_post_fst Let_def
      split: sum.splits)

lemma registerDIDOnBlockchain_items:
  "items (snd (registerDIDOnBlockchain e did publicKey address privateKey w)) = items w"
  by (simp add: registerDIDOnBlockchain_def run signData_fst_snd apiClient_post_fst
      apiClient_post_items Let_def split: sum.splits)

lemma registerDIDOnBlockchain_posted:
  "posted (snd (registerDIDOnBlockchain e did publicKey address privateKey w)) =
     (case fst (signData e privateKey (DString (''Register DID: '' @ did)) w) of
        Inl err \<Rightarrow> posted w
      | Inr sg \<Rightarrow>
          posted w @ [(''/register-on-chain'',
                  [(''did'', did), (''publicKey'', publicKey), (''address'', address),
                   (''signature'', sg), (''message'', ''Register DID: '' @ did)])])"
  by (simp add: registerDIDOnBlockchain_def run signData_fst_snd apiClient_post_fst
      apiClient_post_posted Let_def split: sum.splits)

lemma registerDIDOnBlockchain_public_fst:
  "fst (registerDIDOnBlockchain_public e did publicKey address w) =
     (case axios_post e ''/register''
             [(''did'', did), (''publicKey'', publicKey), (''address'', address)] of
        Inl f \<Rightarrow> Inl (Error (failure_message f))
      | Inr r \<Rightarrow> Inr r)"
  by (simp add: registerDIDOnBlockchain_public_def run apiClient_post_fst split: sum.splits)

lemma registerDIDOnBlockchain_public_items:
  "items (snd (registerDIDOnBlockchain_public e did publicKey address w)) = items w"
  by (simp add: registerDIDOnBlockchain_public_def run apiClient_post_fst
      apiClient_post_items split: sum.splits)

lemma registration_attempt:
  fixes reg :: "'a M"
  assumes "\<And>v. fst (ok v) = Inr ()" and "\<And>v. fst (warn v) = Inr ()"
  shows "fst (try_catch (bnd reg (\<lambda>_. ok)) (\<lambda>err. warn) w) = Inr () \<and>
         snd (try_catch (bnd reg (\<lambda>_. ok)) (\<lambda>err. warn) w) =
           (if isl (fst (reg w)) then snd (warn (snd (reg w))) else snd (ok (snd (reg w))))"
proof (cases "reg w")
  case (Pair r w1)
  show ?thesis
  proof (cases r)
    case (Inl err)
    with Pair assms(2) [of w1] show ?thesis
      by (simp add: try_catch_def bnd_def)
  next
    case (Inr x)
    with Pair assms(1) [of w1] show ?thesis
      by (cases "ok w1") (simp add: try_catch_def bnd_def)
  qed
qed

lemma generateKeyPair_at:
  assumes "fst (generateKeyPair e w) = Inr kp"
  shows "generateKeyPair e w' = (Inr kp, w')"
  using assms generateKeyPair_world [of e w' w] by simp

lemma saveWalletKeys_at:
  assumes "setItemAsync_rejects e PRIVATE_KEY privateKey = None"
    and "setItemAsync_rejects e PUBLIC_KEY publicKey = None"
    and "setItemAsync_rejects e ADDRESS address = None"
    and "setItemAsync_rejects e DID did = None"
    and "setItemAsync_rejects e WALLET_INITIALIZED ''true'' = None"
  shows "saveWalletKeys e privateKey publicKey address did w =
           (Inr True, snd (saveWalletKeys e privateKey publicKey address did w))"
  using saveWalletKeys_accepted(1) [OF assms, of w] by (simp add: prod_eq_iff)

text \<open>The shape both revisions of createLocalDID share.\<close>

lemma createLocalDID_shape:
  fixes reg :: "keyPair \<Rightarrow> 'a M"
  assumes gen: "fst (generateKeyPair e w) = Inr kp"
    and s1: "setItemAsync_rejects e PRIVATE_KEY (k_privateKey kp) = None"
    and s2: "setItemAsync_rejects e PUBLIC_KEY (k_publicKey kp) = None"
    and s3: "setItemAsync_rejects e ADDRESS (k_address kp) = None"
    and s4: "setItemAsync_rejects e DID (k_did kp) = None"
    and s5: "setItemAsync_rejects e WALLET_INITIALIZED ''true'' = None"
    and ok: "\<And>v. fst (ok v) = Inr ()" "\<And>v. items (snd (ok v)) = items v"
    and warn: "\<And>v. fst (warn v) = Inr ()" "\<And>v. items (snd (warn v)) = items v"
    and reg: "\<And>v. items (snd (reg kp v)) = items v" "\<And>v v'. isl (fst (reg kp v)) = isl (fst (reg kp v'))"
  defines "run \<equiv>
     try_catch
       (bnd (logger_info ''Generating key pair locally...'') (\<lambda>_.
        bnd (generateKeyPair e) (\<lambda>kp.
        bnd (logger_success (''DID created locally: '' @ k_did kp)) (\<lambda>_.
        bnd (saveWalletKeys e (k_privateKey kp) (k_publicKey kp) (k_address kp) (k_did kp)) (\<lambda>_.
        bnd (try_catch (bnd (reg kp) (\<lambda>_. ok)) (\<lambda>err. warn)) (\<lambda>_.
        bnd (logger_success ''DID created successfully'') (\<lambda>_.
        ret \<lparr>l_did = k_did kp, l_address = k_address kp, l_publicKey = k_publicKey kp\<rparr>)))))))
       (\<lambda>err.
        bnd (logger_error ''Failed to create DID'') (\<lambda>_.
        throw err))"
  shows "fst (run w) =
           Inr \<lparr>l_did = k_did kp, l_address = k_address kp, l_publicKey = k_publicKey kp\<rparr> \<and>
         items (snd (run w)) =
           (items w)(PRIVATE_KEY \<mapsto> k_privateKey kp, PUBLIC_KEY \<mapsto> k_publicKey kp,
                     ADDRESS \<mapsto> k_address kp, DID \<mapsto> k_did kp, WALLET_INITIALIZED \<mapsto> ''true'') \<and>
         (isl (fst (reg kp w)) \<longrightarrow>
            (\<exists>v. logs (snd (run w)) =
                   take 50 ((''success'', ''DID created successfully'') # logs (snd (warn v)))))"
proof -
  let ?att = "try_catch (bnd (reg kp) (\<lambda>_. ok)) (\<lambda>err. warn)"
  let ?save = "saveWalletKeys e (k_privateKey kp) (k_publicKey kp) (k_address kp) (k_did kp)"
  have b_gen: "\<And>f v. bnd (generateKeyPair e) f v = f kp v"
    by (rule bnd_run [OF generateKeyPair_at [OF gen]])
  have b_save: "\<And>f v. bnd ?save f v = f True (snd (?save v))"
    by (rule bnd_run [OF saveWalletKeys_at [OF s1 s2 s3 s4 s5]])
  have att: "\<And>v. fst (?att v) = Inr ()"
      "\<And>v. snd (?att v) = (if isl (fst (reg kp v)) then snd (warn (snd (reg kp v)))
                             else snd (ok (snd (reg kp v))))"
    using registration_attempt [of ok warn "reg kp", OF ok(1) warn(1)] by simp_all
  have b_att: "\<And>f v. bnd ?att f v = f () (snd (?att v))"
    by (rule bnd_run, simp add: prod_eq_iff att(1))
  define w2 where
    "w2 = w\<lparr>logs := take 50 ((''success'', ''DID created locally: '' @ k_did kp) #
                       take 50 ((''info'', ''Generating key pair locally...'') # logs w))\<rparr>"
  define w4 where "w4 = snd (?att (snd (?save w2)))"
  have body: "run w =
      (Inr \<lparr>l_did = k_did kp, l_address = k_address kp, l_publicKey = k_publicKey kp\<rparr>,
       w4\<lparr>logs := take 50 ((''success'', ''DID created successfully'') # logs w4)\<rparr>)"
    unfolding run_def
    apply (rule try_catch_run)
    apply (simp only: bnd_logger b_gen b_save b_att ret_def)
    apply (simp add: w4_def w2_def)
    done
  have items_save: "items (snd (?save w2)) =
           (items w)(PRIVATE_KEY \<mapsto> k_privateKey kp, PUBLIC_KEY \<mapsto> k_publicKey kp,
                     ADDRESS \<mapsto> k_address kp, DID \<mapsto> k_did kp, WALLET_INITIALIZED \<mapsto> ''true'')"
    using saveWalletKeys_accepted(2) [OF s1 s2 s3 s4 s5, of w2] by (simp add: w2_def)
  have items4: "items w4 = items (snd (?save w2))"
    by (simp add: w4_def att(2) ok(2) warn(2) reg(1))
  have logs4: "isl (fst (reg kp w)) \<Longrightarrow> w4 = snd (warn (snd (reg kp (snd (?save w2)))))"
    using reg(2) [of w "snd (?save w2)"] by (simp add: w4_def att(2))
  show ?thesis
    using logs4 by (auto simp: body items4 items_save)
qed

lemma registerDIDOnBlockchain_isl:
  "isl (fst (registerDIDOnBlockchain e did publicKey address privateKey v)) =
   isl (fst (registerDIDOnBlockchain e did publicKey address privateKey v'))"
  by (simp add: registerDIDOnBlockchain_fst signData_fst_snd)

lemma registerDIDOnBlockchain_public_isl:
  "isl (fst (registerDIDOnBlockchain_public e did publicKey address v)) =
   isl (fst (registerDIDOnBlockchain_public e did publicKey address v'))"
  by (simp add: registerDIDOnBlockchain_public_fst)

lemma env_axios_post:
  "generateKeyPair (e\<lparr>axios_post := p\<rparr>) = generateKeyPair e"
  "setItemAsync_rejects (e\<lparr>axios_post := p\<rparr>) = setItemAsync_rejects e"
  by (rule ext, simp add: generateKeyPair_def Let_def cong: option.case_cong) simp

lemma createLocalDID_local:
  assumes gen: "fst (generateKeyPair e w) = Inr kp"
    and s1: "setItemAsync_rejects e PRIVATE_KEY (k_privateKey kp) = None"
    and s2: "setItemAsync_rejects e PUBLIC_KEY (k_publicKey kp) = None"
    and s3: "setItemAsync_rejects e ADDRESS (k_address kp) = None"
    and s4: "setItemAsync_rejects e DID (k_did kp) = None"
    and s5: "setItemAsync_rejects e WALLET_INITIALIZED ''true'' = None"
  shows "fst (createLocalDID e w) =
           Inr \<lparr>l_did = k_did kp, l_address = k_address kp, l_publicKey = k_publicKey kp\<rparr> \<and>
         items (snd (createLocalDID e w)) =
           (items w)(PRIVATE_KEY \<mapsto> k_privateKey kp, PUBLIC_KEY \<mapsto> k_publicKey kp,
                     ADDRESS \<mapsto> k_address kp, DID \<mapsto> k_did kp, WALLET_INITIALIZED \<mapsto> ''true'') \<and>
         (isl (fst (registerDIDOnBlockchain e (k_did kp) (k_publicKey kp) (k_address kp)
                      (k_privateKey kp) w)) \<longrightarrow>
            (''warning'', ''DID created locally but blockchain registration failed'')
              \<in> set (logs (snd (createLocalDID e w))))"
proof -
  let ?ok = "logger_success ''DID registered on blockchain''"
  let ?warn = "bnd (logger_warning ''DID created locally but blockchain registration failed'')
                 (\<lambda>_. logger_warning ''You can try registering again later'')"
  let ?reg = "\<lambda>kp. registerDIDOnBlockchain e (k_did kp) (k_publicKey kp) (k_address kp)
                      (k_privateKey kp)"
  have warn_snd: "\<And>v. snd (?warn v) =
      v\<lparr>logs := take 50 ((''warning'', ''You can try registering again later'') #
                take 50 ((''warning'', ''DID created locally but blockchain registration failed'')
                         # logs v))\<rparr>"
    by (simp add: bnd_def logger_warning_def logger_log_def)
  have shape: "fst (createLocalDID e w) =
           Inr \<lparr>l_did = k_did kp, l_address = k_address kp, l_publicKey = k_publicKey kp\<rparr> \<and>
         items (snd (createLocalDID e w)) =
           (items w)(PRIVATE_KEY \<mapsto> k_privateKey kp, PUBLIC_KEY \<mapsto> k_publicKey kp,
                     ADDRESS \<mapsto> k_address kp, DID \<mapsto> k_did kp, WALLET_INITIALIZED \<mapsto> ''true'') \<and>
         (isl (fst (?reg kp w)) \<longrightarrow>
            (\<exists>v. logs (snd (createLocalDID e w)) =
                   take 50 ((''success'', ''DID created successfully'') # logs (snd (?warn v)))))"
    unfolding createLocalDID_def
  proof (rule createLocalDID_shape [where reg = ?reg and ok = ?ok and warn = ?warn,
          OF gen s1 s2 s3 s4 s5])
    show "\<And>v. fst (?ok v) = Inr ()" "\<And>v. items (snd (?ok v)) = items v"
      by (simp_all add: logger_success_def logger_log_def)
    show "\<And>v. fst (?warn v) = Inr ()" "\<And>v. items (snd (?warn v)) = items v"
      by (simp_all add: bnd_def logger_warning_def logger_log_def)
    show "\<And>v. items (snd (?reg kp v)) = items v"
      by (rule registerDIDOnBlockchain_items)
    show "\<And>v v'. isl (fst (?reg kp v)) = isl (fst (?reg kp v'))"
      by (rule registerDIDOnBlockchain_isl)
  qed
  then show ?thesis
    by (auto simp: warn_snd)
qed

lemma createLocalDID_public_local:
  assumes gen: "fst (generateKeyPair e w) = Inr kp"
    and s1: "setItemAsync_rejects e PRIVATE_KEY (k_privateKey kp) = None"
    and s2: "setItemAsync_rejects e PUBLIC_KEY (k_publicKey kp) = None"
    and s3: "setItemAsync_rejects e ADDRESS (k_address kp) = None"
    and s4: "setItemAsync_rejects e DID (k_did kp) = None"
    and s5: "setItemAsync_rejects e WALLET_INITIALIZED ''true'' = None"
  shows "fst (createLocalDID_public e w) =
           Inr \<lparr>l_did = k_did kp, l_address = k_address kp, l_publicKey = k_publicKey kp\<rparr> \<and>
         items (snd (createLocalDID_public e w)) =
           (items w)(PRIVATE_KEY \<mapsto> k_privateKey kp, PUBLIC_KEY \<mapsto> k_publicKey kp,
                     ADDRESS \<mapsto> k_address kp, DID \<mapsto> k_did kp, WALLET_INITIALIZED \<mapsto> ''true'') \<and>
         (isl (fst (registerDIDOnBlockchain_public e (k_did kp) (k_publicKey kp) (k_address kp) w)) \<longrightarrow>
            (''warning'', ''DID created locally but blockchain registration failed'')
              \<in> set (logs (snd (createLocalDID_public e w))))"
proof -
  let ?ok = "ret () :: unit M"
  let ?warn = "logger_warning ''DID created locally but blockchain registration failed''"
  let ?reg = "\<lambda>kp. registerDIDOnBlockchain_public e (k_did kp) (k_publicKey kp) (k_address kp)"
  have warn_snd: "\<And>v. snd (?warn v) =
      v\<lparr>logs := take 50 ((''warning'', ''DID created locally but blockchain registration failed'')
                         # logs v)\<rparr>"
    by (simp add: logger_warning_def logger_log_def)
  have shape: "fst (createLocalDID_public e w) =
           Inr \<lparr>l_did = k_did kp, l_address = k_address kp, l_publicKey = k_publicKey kp\<rparr> \<and>
         items (snd (createLocalDID_public e w)) =
           (items w)(PRIVATE_KEY \<mapsto> k_privateKey kp, PUBLIC_KEY \<mapsto> k_publicKey kp,
                     ADDRESS \<mapsto> k_address kp, DID \<mapsto> k_did kp, WALLET_INITIALIZED \<mapsto> ''true'') \<and>
         (isl (fst (?reg kp w)) \<longrightarrow>
            (\<exists>v. logs (snd (createLocalDID_public e w)) =
                   take 50 ((''success'', ''DID created successfully'') # logs (snd (?warn v)))))"
    unfolding createLocalDID_public_def
  proof (rule createLocalDID_shape [where reg = ?reg and ok = ?ok and warn = ?warn,
          OF gen s1 s2 s3 s4 s5])
    show "\<And>v. fst (?ok v) = Inr ()" "\<And>v. items (snd (?ok v)) = items v"
      by (simp_all add: ret_def)
    show "\<And>v. fst (?warn v) = Inr ()" "\<And>v. items (snd (?warn v)) = items v"
      by (simp_all add: logger_warning_def logger_log_def)
    show "\<And>v. items (snd (?reg kp v)) = items v"
      by (rule registerDIDOnBlockchain_public_items)
    show "\<And>v v'. isl (fst (?reg kp v)) = isl (fst (?reg kp v'))"
      by (rule registerDIDOnBlockchain_public_isl)
  qed
  then show ?thesis
    by (auto simp: warn_snd)
qed

text \<open>
  C8, as the code has it. When the key pair is generated and the five entries are saved,
  and the registration step fails, \<^verbatim>\<open>createLocalDID\<close> still returns
  \<^verbatim>\<open>{ did, address, publicKey }\<close> with the saved entries in the store. The failure is
  caught inside: it is written to the activity log as a warning, and the value returned
  is the one returned when the registrar answers, whatever the registrar answers. This
  holds of the revision that signs a proof of ownership when its registration fails, and
  of the revision that sends public data when its registration fails, each on its own.
\<close>

theorem createLocalDID_registration_failure:
  assumes gen: "fst (generateKeyPair e w) = Inr kp"
    and s1: "setItemAsync_rejects e PRIVATE_KEY (k_privateKey kp) = None"
    and s2: "setItemAsync_rejects e PUBLIC_KEY (k_publicKey kp) = None"
    and s3: "setItemAsync_rejects e ADDRESS (k_address kp) = None"
    and s4: "setItemAsync_rejects e DID (k_did kp) = None"
    and s5: "setItemAsync_rejects e WALLET_INITIALIZED ''true'' = None"
  shows "(fst (registerDIDOnBlockchain e (k_did kp) (k_publicKey kp) (k_address kp)
                 (k_privateKey kp) w) = Inl err \<longrightarrow>
            fst (createLocalDID e w) =
              Inr \<lparr>l_did = k_did kp, l_address = k_address kp, l_publicKey = k_publicKey kp\<rparr> \<and>
            items (snd (createLocalDID e w)) =
              (items w)(PRIVATE_KEY \<mapsto> k_privateKey kp, PUBLIC_KEY \<mapsto> k_publicKey kp,
                        ADDRESS \<mapsto> k_address kp, DID \<mapsto> k_did kp, WALLET_INITIALIZED \<mapsto> ''true'') \<and>
            (''warning'', ''DID created locally but blockchain registration failed'')
              \<in> set (logs (snd (createLocalDID e w))) \<and>
            fst (createLocalDID (e\<lparr>axios_post := p\<rparr>) w) = fst (createLocalDID e w)) \<and>
         (fst (registerDIDOnBlockchain_public e (k_did kp) (k_publicKey kp) (k_address kp) w)
            = Inl err' \<longrightarrow>
            fst (createLocalDID_public e w) =
              Inr \<lparr>l_did = k_did kp, l_address = k_address kp, l_publicKey = k_publicKey kp\<rparr> \<and>
            items (snd (createLocalDID_public e w)) =
              (items w)(PRIVATE_KEY \<mapsto> k_privateKey kp, PUBLIC_KEY \<mapsto> k_publicKey kp,
                        ADDRESS \<mapsto> k_address kp, DID \<mapsto> k_did kp, WALLET_INITIALIZED \<mapsto> ''true'') \<and>
            (''warning'', ''DID created locally but blockchain registration failed'')
              \<in> set (logs (snd (createLocalDID_public e w))) \<and>
            fst (createLocalDID_public (e\<lparr>axios_post := p\<rparr>) w) = fst (createLocalDID_public e w))"
proof -
  have gen': "fst (generateKeyPair (e\<lparr>axios_post := p\<rparr>) w) = Inr kp"
    using gen by (simp add: env_axios_post)
  have s': "setItemAsync_rejects (e\<lparr>axios_post := p\<rparr>) PRIVATE_KEY (k_privateKey kp) = None"
    "setItemAsync_rejects (e\<lparr>axios_post := p\<rparr>) PUBLIC_KEY (k_publicKey kp) = None"
    "setItemAsync_rejects (e\<lparr>axios_post := p\<rparr>) ADDRESS (k_address kp) = None"
    "setItemAsync_rejects (e\<lparr>axios_post := p\<rparr>) DID (k_did kp) = None"
    "setItemAsync_rejects (e\<lparr>axios_post := p\<rparr>) WALLET_INITIALIZED ''true'' = None"
    using s1 s2 s3 s4 s5 by simp_all
  from createLocalDID_local [OF gen s1 s2 s3 s4 s5] createLocalDID_local [OF gen' s']
  have signed: "fst (registerDIDOnBlockchain e (k_did kp) (k_publicKey kp) (k_address kp)
                 (k_privateKey kp) w) = Inl err \<longrightarrow>
            fst (createLocalDID e w) =
              Inr \<lparr>l_did = k_did kp, l_address = k_address kp, l_publicKey = k_publicKey kp\<rparr> \<and>
            items (snd (createLocalDID e w)) =
              (items w)(PRIVATE_KEY \<mapsto> k_privateKey kp, PUBLIC_KEY \<mapsto> k_publicKey kp,
                        ADDRESS \<mapsto> k_address kp, DID \<mapsto> k_did kp, WALLET_INITIALIZED \<mapsto> ''true'') \<and>
            (''warning'', ''DID created locally but blockchain registration failed'')
              \<in> set (logs (snd (createLocalDID e w))) \<and>
            fst (createLocalDID (e\<lparr>axios_post := p\<rparr>) w) = fst (createLocalDID e w)"
    by simp
  from createLocalDID_public_local [OF gen s1 s2 s3 s4 s5]
    createLocalDID_public_local [OF gen' s']
  have public: "fst (registerDIDOnBlockchain_public e (k_did kp) (k_publicKey kp) (k_address kp) w)
            = Inl err' \<longrightarrow>
            fst (createLocalDID_public e w) =
              Inr \<lparr>l_did = k_did kp, l_address = k_address kp, l_publicKey = k_publicKey kp\<rparr> \<and>
            items (snd (createLocalDID_public e w)) =
              (items w)(PRIVATE_KEY \<mapsto> k_privateKey kp, PUBLIC_KEY \<mapsto> k_publicKey kp,
                        ADDRESS \<mapsto> k_address kp, DID \<mapsto> k_did kp, WALLET_INITIALIZED \<mapsto> ''true'') \<and>
            (''warning'', ''DID created locally but blockchain registration failed'')
              \<in> set (logs (snd (createLocalDID_public e w))) \<and>
            fst (createLocalDID_public (e\<lparr>axios_post := p\<rparr>) w) = fst (createLocalDID_public e w)"
    by simp
  from signed public show ?thesis
    by (rule conjI)
qed

lemma example_keyPair:
  "fst (generateKeyPair offline_env empty_world) =
     Inr \<lparr>k_privateKey = example_key, k_publicKey = example_publicKey,
          k_address = example_address, k_did = example_did\<rparr>"
  "fst (generateKeyPair example_env empty_world) =
     Inr \<lparr>k_privateKey = example_key, k_publicKey = example_publicKey,
          k_address = example_address, k_did = example_did\<rparr>"
  "fst (generateKeyPair unsigned_env empty_world) =
     Inr \<lparr>k_privateKey = example_key, k_publicKey = example_publicKey,
          k_address = example_address, k_did = example_did\<rparr>"
  by code_simp+

lemma example_offline:
  "fst (registerDIDOnBlockchain offline_env example_did example_publicKey example_address
          example_key empty_world) = Inl (Error ''Network Error'')"
  "fst (registerDIDOnBlockchain_public offline_env example_did example_publicKey example_address
          empty_world) = Inl (Error ''Network Error'')"
  by (simp_all add: registerDIDOnBlockchain_fst registerDIDOnBlockchain_public_fst
      signData_fst_snd failure_message_def offline_env_def example_env_def example_sign_def)

lemma example_unsigned:
  "fst (registerDIDOnBlockchain unsigned_env example_did example_publicKey example_address
          example_key empty_world) = Inl (Error ''signing failed'')"
  "fst (registerDIDOnBlockchain_public unsigned_env example_did example_publicKey example_address
          empty_world) = Inr \<lparr>r_status = 200, r_txHash = ''0xabc'', r_blockNumber = 7\<rparr>"
  by (simp_all add: registerDIDOnBlockchain_fst registerDIDOnBlockchain_public_fst
      signData_fst_snd failure_message_def unsigned_env_def example_env_def)

lemma example_accepts:
  "setItemAsync_rejects offline_env k v = None"
  "setItemAsync_rejects example_env k v = None"
  "setItemAsync_rejects unsigned_env k v = None"
  by (simp_all add: offline_env_def example_env_def unsigned_env_def)

theorem createLocalDID_registration_failure_witness:
  "fst (registerDIDOnBlockchain unsigned_env example_did example_publicKey example_address
          example_key empty_world) = Inl (Error ''signing failed'') \<and>
   fst (registerDIDOnBlockchain_public unsigned_env example_did example_publicKey example_address
          empty_world) = Inr \<lparr>r_status = 200, r_txHash = ''0xabc'', r_blockNumber = 7\<rparr> \<and>
   fst (createLocalDID unsigned_env empty_world) =
     Inr \<lparr>l_did = example_did, l_address = example_address, l_publicKey = example_publicKey\<rparr> \<and>
   items (snd (createLocalDID unsigned_env empty_world)) =
     (items empty_world)(PRIVATE_KEY \<mapsto> example_key, PUBLIC_KEY \<mapsto> example_publicKey,
        ADDRESS \<mapsto> example_address, DID \<mapsto> example_did, WALLET_INITIALIZED \<mapsto> ''true'') \<and>
   (''warning'', ''DID created locally but blockchain registration failed'')
     \<in> set (logs (snd (createLocalDID unsigned_env empty_world))) \<and>
   fst (registerDIDOnBlockchain_public offline_env example_did example_publicKey example_address
          empty_world) = Inl (Error ''Network Error'') \<and>
   fst (createLocalDID_public offline_env empty_world) =
     Inr \<lparr>l_did = example_did, l_address = example_address, l_publicKey = example_publicKey\<rparr> \<and>
   items (snd (createLocalDID_public offline_env empty_world)) =
     (items empty_world)(PRIVATE_KEY \<mapsto> example_key, PUBLIC_KEY \<mapsto> example_publicKey,
        ADDRESS \<mapsto> example_address, DID \<mapsto> example_did, WALLET_INITIALIZED \<mapsto> ''true'') \<and>
   (''warning'', ''DID created locally but blockchain registration failed'')
     \<in> set (logs (snd (createLocalDID_public offline_env empty_world)))"
proof -
  let ?kp = "\<lparr>k_privateKey = example_key, k_publicKey = example_publicKey,
              k_address = example_address, k_did = example_did\<rparr>"
  have failed: "fst (registerDIDOnBlockchain unsigned_env (k_did ?kp) (k_publicKey ?kp)
                       (k_address ?kp) (k_privateKey ?kp) empty_world)
                  = Inl (Error ''signing failed'')"
    and failed_public: "fst (registerDIDOnBlockchain_public offline_env (k_did ?kp)
                               (k_publicKey ?kp) (k_address ?kp) empty_world)
                          = Inl (Error ''Network Error'')"
    using example_unsigned(1) example_offline(2) by simp_all
  note signed = createLocalDID_registration_failure [OF example_keyPair(3) example_accepts(3)
      example_accepts(3) example_accepts(3) example_accepts(3) example_accepts(3),
      where err = "Error ''signing failed''"]
  note public = createLocalDID_registration_failure [OF example_keyPair(1) example_accepts(1)
      example_accepts(1) example_accepts(1) example_accepts(1) example_accepts(1),
      where err' = "Error ''Network Error''"]
  from signed failed public failed_public example_unsigned example_offline(2)
  show ?thesis
    by simp
qed

theorem registrar_error_surfaced_counterexample:
  "fst (registerDIDOnBlockchain offline_env example_did example_publicKey example_address
          example_key empty_world) = Inl (Error ''Network Error'') \<and>
   fst (registerDIDOnBlockchain example_env example_did example_publicKey example_address
          example_key empty_world)
     = Inr \<lparr>success = True, txHash = ''0xabc'', blockNumber = 7\<rparr> \<and>
   fst (createLocalDID offline_env empty_world) = fst (createLocalDID example_env empty_world) \<and>
   fst (createLocalDID_public offline_env empty_world)
     = fst (createLocalDID_public example_env empty_world)"
proof -
  have answered: "fst (registerDIDOnBlockchain example_env example_did example_publicKey
                         example_address example_key empty_world)
                    = Inr \<lparr>success = True, txHash = ''0xabc'', blockNumber = 7\<rparr>"
    by (simp add: registerDIDOnBlockchain_fst signData_fst_snd example_env_def example_sign_def)
  note off = createLocalDID_local [OF example_keyPair(1) example_accepts(1) example_accepts(1)
      example_accepts(1) example_accepts(1) example_accepts(1)]
  note on = createLocalDID_local [OF example_keyPair(2) example_accepts(2) example_accepts(2)
      example_accepts(2) example_accepts(2) example_accepts(2)]
  note off_public = createLocalDID_public_local [OF example_keyPair(1) example_accepts(1)
      example_accepts(1) example_accepts(1) example_accepts(1) example_accepts(1)]
  note on_public = createLocalDID_public_local [OF example_keyPair(2) example_accepts(2)
      example_accepts(2) example_accepts(2) example_accepts(2) example_accepts(2)]
  from example_offline(1) answered off on off_public on_public show ?thesis
    by simp
qed

text \<open>
  C9. The registration that proves ownership builds the message "Register DID: " followed
  by the DID, signs it with \<^verbatim>\<open>signData\<close> under the given private key, and sends the
  registrar one request that carries that message and that signature beside the DID, the
  public key and the address. When \<^verbatim>\<open>signData\<close> throws, nothing is sent and the error
  is thrown on.
\<close>

theorem registerDIDOnBlockchain_ownership_proof:
  "(\<forall>sg. fst (signData e privateKey (DString (''Register DID: '' @ did)) w) = Inr sg \<longrightarrow>
      posted (snd (registerDIDOnBlockchain e did publicKey address privateKey w)) =
        posted w @ [(''/register-on-chain'',
                     [(''did'', did), (''publicKey'', publicKey), (''address'', address),
                      (''signature'', sg), (''message'', ''Register DID: '' @ did)])]) \<and>
   (\<forall>err. fst (signData e privateKey (DString (''Register DID: '' @ did)) w) = Inl err \<longrightarrow>
      posted (snd (registerDIDOnBlockchain e did publicKey address privateKey w)) = posted w \<and>
      fst (registerDIDOnBlockchain e did publicKey address privateKey w) = Inl err)"
  by (simp add: registerDIDOnBlockchain_posted registerDIDOnBlockchain_fst)

theorem registerDIDOnBlockchain_ownership_proof_witness:
  "fst (signData example_env example_key (DString (''Register DID: '' @ example_did)) empty_world)
     = Inr (toString_hex (toUtf8Bytes (''Register DID: '' @ example_did)) @ '':'' @ example_address) \<and>
   posted (snd (registerDIDOnBlockchain example_env example_did example_publicKey
                  example_address example_key empty_world)) =
     posted empty_world @
     [(''/register-on-chain'',
       [(''did'', example_did), (''publicKey'', example_publicKey), (''address'', example_address),
        (''signature'',
         toString_hex (toUtf8Bytes (''Register DID: '' @ example_did)) @ '':'' @ example_address),
        (''message'', ''Register DID: '' @ example_did)])]"
proof -
  have signed: "fst (signData example_env example_key
                       (DString (''Register DID: '' @ example_did)) empty_world)
      = Inr (toString_hex (toUtf8Bytes (''Register DID: '' @ example_did)) @ '':'' @
             example_address)"
    by (simp add: signData_fst_snd example_env_def example_sign_def example_wallet_def
        dataString_def)
  with registerDIDOnBlockchain_ownership_proof [of example_env example_key example_did
      empty_world example_publicKey example_address]
  show ?thesis
    by blast
qed

end
